theory Spec2Isabelle
  imports Main "HOL-Library.Sublist"
begin

section \<open>Python values, exceptions and string operations\<close>

text \<open>
  The pipeline of \<^verbatim>\<open>app/langgraph_nodes.py\<close> and \<^verbatim>\<open>app/main.py\<close> is embedded as pure
  functions over an explicit world. An exception is a value: \<open>ExceptionE\<close> stands for an
  instance of (a subclass of) \<^verbatim>\<open>Exception\<close>, which \<^verbatim>\<open>except Exception\<close> catches, and
  \<open>BaseExceptionE\<close> for one that derives from \<^verbatim>\<open>BaseException\<close> only (\<^verbatim>\<open>SystemExit\<close>,
  \<^verbatim>\<open>KeyboardInterrupt\<close>), which that handler lets through. The string is the class name.
\<close>

datatype pyexc = ExceptionE string | BaseExceptionE string

text \<open>The values \<^verbatim>\<open>ast.literal_eval\<close> can return, as far as the model follows them.\<close>

datatype pyval =
    PNone
  | PBool bool
  | PInt int
  | PStr string
  | PList "pyval list"
  | PDict "(pyval \<times> pyval) list"

text \<open>
  \<^verbatim>\<open>str.isspace\<close> on the code points below 256 (a \<open>char\<close> is one such code point):
  tab, line feed, vertical tab, form feed, carriage return, the four separators
  28 to 31, space, NEL (133) and the no-break space (160).
\<close>

definition is_space :: "char \<Rightarrow> bool" where
  "is_space c = (of_char c \<in> {9, 10, 11, 12, 13, 28, 29, 30, 31, 32, 133, 160 :: nat})"

text \<open>\<^verbatim>\<open>s.strip()\<close>: leading and trailing whitespace removed.\<close>

definition py_strip :: "string \<Rightarrow> string" where
  "py_strip s = rev (dropWhile is_space (rev (dropWhile is_space s)))"

text \<open>\<^verbatim>\<open>s.startswith(p)\<close> and \<^verbatim>\<open>s.endswith(p)\<close>.\<close>

definition startswith :: "string \<Rightarrow> string \<Rightarrow> bool" where
  "startswith s p = prefix p s"

definition endswith :: "string \<Rightarrow> string \<Rightarrow> bool" where
  "endswith s p = suffix p s"

text \<open>
  \<^verbatim>\<open>s.replace(old, new)\<close>: every non-overlapping occurrence of \<open>old\<close>, scanning from the
  left. With an empty \<open>old\<close> Python puts \<open>new\<close> before every character and at the end.
\<close>

function py_replace :: "string \<Rightarrow> string \<Rightarrow> string \<Rightarrow> string" where
  "py_replace old new [] = (if old = [] then new else [])"
| "py_replace old new (c # cs) =
     (if old = [] then new @ c # py_replace old new cs
      else if prefix old (c # cs) then new @ py_replace old new (drop (length old) (c # cs))
      else c # py_replace old new cs)"
  by pat_completeness auto
termination
  by (relation "measure (\<lambda>(old, new, s). length s)") auto

section \<open>The planner's fence stripping (suggest_plots, lines 169 to 173)\<close>

text \<open>
  \<^verbatim>\<open>
  if raw.startswith("```json"):
      raw = raw[len("```json"):].strip()
  if raw.endswith("```"):
      raw = raw[:-len("```")].strip()
  \<close>
  \<^verbatim>\<open>raw[:-3]\<close> keeps all but the last three characters.
\<close>

definition strip_code_fence :: "string \<Rightarrow> string" where
  "strip_code_fence raw =
     (let raw1 = (if startswith raw ''```json''
                  then py_strip (drop (length ''```json'') raw) else raw);
          raw2 = (if endswith raw1 ''```''
                  then py_strip (take (length raw1 - length ''```'') raw1) else raw1)
      in raw2)"

section \<open>A model of ast.literal_eval on the JSON-like literals\<close>

text \<open>
  \<^verbatim>\<open>ast.literal_eval\<close> belongs to the Python library, not to this repository. The pipeline
  below takes it as a parameter; \<open>literal_eval\<close> here is an executable model of it on the
  literals a planner response is made of: \<^verbatim>\<open>None\<close>, \<^verbatim>\<open>True\<close>, \<^verbatim>\<open>False\<close>, decimal integers
  with an optional minus sign, single-line strings in single or double quotes with the
  escapes \<^verbatim>\<open>\\ \' \" \n \t \r\<close>, lists and dicts (a trailing comma allowed). Text that is no
  Python expression at all (a stray backquote, unbalanced brackets, a missing colon) raises
  \<^verbatim>\<open>SyntaxError\<close>, as in Python. Other Python literals (floats, tuples, sets, bytes, comments,
  prefixed strings, other escapes, signs other than one minus) are outside the model, which
  rejects them too; no theorem below evaluates the model on one of them.
\<close>

datatype tok =
    TLBrace | TRBrace | TLBrack | TRBrack | TColon | TComma | TMinus
  | TStr string | TInt nat | TName string

text \<open>
  The lexer reads one character at a time. Its mode records what it is in the middle of;
  the number is the depth of open brackets, since a line break is only layout inside
  brackets. \<open>LLead ind\<close>: before the first token, \<open>ind\<close> says the current line started with
  spaces or tabs (Python then raises \<^verbatim>\<open>IndentationError\<close>; a form feed starts the count of
  the indentation again). \<open>LTail ind\<close>: after a line break at depth 0 that follows a token,
  where only blank space may come; a last line of spaces or tabs that no line break ends
  is an \<^verbatim>\<open>IndentationError\<close> too.
\<close>

datatype lexmode =
    LLead bool
  | LIdle nat
  | LStr nat char string
  | LEsc nat char string
  | LNum nat string
  | LName nat string
  | LTail bool

definition is_digit :: "char \<Rightarrow> bool" where
  "is_digit c = (48 \<le> (of_char c :: nat) \<and> (of_char c :: nat) \<le> 57)"

definition is_name_start :: "char \<Rightarrow> bool" where
  "is_name_start c =
     (let n = (of_char c :: nat) in (65 \<le> n \<and> n \<le> 90) \<or> (97 \<le> n \<and> n \<le> 122) \<or> n = 95)"

definition is_blank :: "char \<Rightarrow> bool" where
  "is_blank c = (of_char c \<in> {9, 12, 32 :: nat})"

definition is_formfeed :: "char \<Rightarrow> bool" where
  "is_formfeed c = (of_char c = (12 :: nat))"

definition is_newline :: "char \<Rightarrow> bool" where
  "is_newline c = (of_char c \<in> {10, 13 :: nat})"

definition int_of_digits :: "string \<Rightarrow> nat option" where
  "int_of_digits ds =
     (if length ds > 1 \<and> hd ds = CHR ''0'' \<and> (\<exists>d \<in> set ds. d \<noteq> CHR ''0'') then None
      else Some (foldl (\<lambda>n d. 10 * n + (of_char d - 48)) 0 ds))"

definition unescape :: "char \<Rightarrow> char option" where
  "unescape c =
     (if c = CHR ''n'' then Some (CHR 0x0A)
      else if c = CHR ''t'' then Some (CHR 0x09)
      else if c = CHR ''r'' then Some (CHR 0x0D)
      else if c = CHR 0x5C \<or> c = CHR 0x27 \<or> c = CHR 0x22 then Some c
      else None)"

definition idle_step :: "nat \<Rightarrow> char \<Rightarrow> (tok list \<times> lexmode) option" where
  "idle_step d c =
     (if is_blank c then Some ([], LIdle d)
      else if is_newline c then Some ([], if d = 0 then LTail False else LIdle d)
      else if c = CHR ''{'' then Some ([TLBrace], LIdle (Suc d))
      else if c = CHR ''['' then Some ([TLBrack], LIdle (Suc d))
      else if c = CHR ''}'' then (if d = 0 then None else Some ([TRBrace], LIdle (d - 1)))
      else if c = CHR '']'' then (if d = 0 then None else Some ([TRBrack], LIdle (d - 1)))
      else if c = CHR '':'' then Some ([TColon], LIdle d)
      else if c = CHR '','' then Some ([TComma], LIdle d)
      else if c = CHR ''-'' then Some ([TMinus], LIdle d)
      else if c = CHR 0x27 \<or> c = CHR 0x22 then Some ([], LStr d c [])
      else if is_digit c then Some ([], LNum d [c])
      else if is_name_start c then Some ([], LName d [c])
      else None)"

definition flush_then :: "tok option \<Rightarrow> nat \<Rightarrow> char \<Rightarrow> (tok list \<times> lexmode) option" where
  "flush_then t d c =
     (case t of None \<Rightarrow> None
      | Some t' \<Rightarrow> (case idle_step d c of None \<Rightarrow> None
                    | Some (ts, m) \<Rightarrow> Some (t' # ts, m)))"

fun lex_step :: "lexmode \<Rightarrow> char \<Rightarrow> (tok list \<times> lexmode) option" where
  "lex_step (LLead ind) c =
     (if is_newline c \<or> is_formfeed c then Some ([], LLead False)
      else if is_blank c then Some ([], LLead True)
      else if ind then None
      else idle_step 0 c)"
| "lex_step (LIdle d) c = idle_step d c"
| "lex_step (LStr d q acc) c =
     (if c = q then Some ([TStr (rev acc)], LIdle d)
      else if c = CHR 0x5C then Some ([], LEsc d q acc)
      else if is_newline c then None
      else Some ([], LStr d q (c # acc)))"
| "lex_step (LEsc d q acc) c =
     (case unescape c of None \<Rightarrow> None | Some e \<Rightarrow> Some ([], LStr d q (e # acc)))"
| "lex_step (LNum d acc) c =
     (if is_digit c then Some ([], LNum d (c # acc))
      else if is_name_start c \<or> c = CHR ''.'' then None
      else flush_then (map_option TInt (int_of_digits (rev acc))) d c)"
| "lex_step (LName d acc) c =
     (if is_name_start c \<or> is_digit c then Some ([], LName d (c # acc))
      else flush_then (Some (TName (rev acc))) d c)"
| "lex_step (LTail ind) c =
     (if is_newline c \<or> is_formfeed c then Some ([], LTail False)
      else if is_blank c then Some ([], LTail True)
      else None)"

fun lex_finish :: "lexmode \<Rightarrow> tok list option" where
  "lex_finish (LLead ind) = Some []"
| "lex_finish (LIdle d) = Some []"
| "lex_finish (LStr d q acc) = None"
| "lex_finish (LEsc d q acc) = None"
| "lex_finish (LNum d acc) = map_option (\<lambda>n. [TInt n]) (int_of_digits (rev acc))"
| "lex_finish (LName d acc) = Some [TName (rev acc)]"
| "lex_finish (LTail ind) = (if ind then None else Some [])"

fun lex :: "lexmode \<Rightarrow> string \<Rightarrow> tok list option" where
  "lex m [] = lex_finish m"
| "lex m (c # cs) =
     (case lex_step m c of None \<Rightarrow> None
      | Some (ts, m') \<Rightarrow> map_option ((@) ts) (lex m' cs))"

text \<open>
  Dict keys compare as Python compares them: \<^verbatim>\<open>True == 1\<close> and \<^verbatim>\<open>False == 0\<close>. A later
  entry with an equal key replaces the value and keeps the first key and its place.
  Lists and dicts are unhashable (\<^verbatim>\<open>TypeError\<close>).
\<close>

fun key_norm :: "pyval \<Rightarrow> pyval" where
  "key_norm (PBool b) = PInt (if b then 1 else 0)"
| "key_norm v = v"

fun hashable :: "pyval \<Rightarrow> bool" where
  "hashable (PList vs) = False"
| "hashable (PDict kvs) = False"
| "hashable v = True"

fun dict_set :: "(pyval \<times> pyval) list \<Rightarrow> pyval \<Rightarrow> pyval \<Rightarrow> (pyval \<times> pyval) list" where
  "dict_set [] k v = [(k, v)]"
| "dict_set ((k', v') # kvs) k v =
     (if key_norm k' = key_norm k then (k', v) # kvs else (k', v') # dict_set kvs k v)"

definition dict_of :: "(pyval \<times> pyval) list \<Rightarrow> (pyval \<times> pyval) list option" where
  "dict_of kvs =
     (if list_all (\<lambda>(k, v). hashable k) kvs
      then Some (foldl (\<lambda>d (k, v). dict_set d k v) [] kvs) else None)"

text \<open>Adjacent string literals are one string.\<close>

fun join_strs :: "string \<Rightarrow> tok list \<Rightarrow> string \<times> tok list" where
  "join_strs acc (TStr s # ts) = join_strs (acc @ s) ts"
| "join_strs acc ts = (acc, ts)"

text \<open>
  Recursive descent over the tokens. The first argument is fuel: each call passes one unit
  less to the calls it makes, and \<open>literal_eval\<close> starts with more than the descent can use.
\<close>

fun parse_value :: "nat \<Rightarrow> tok list \<Rightarrow> (pyval \<times> tok list) option"
  and parse_elems :: "nat \<Rightarrow> tok list \<Rightarrow> (pyval list \<times> tok list) option"
  and parse_pairs :: "nat \<Rightarrow> tok list \<Rightarrow> ((pyval \<times> pyval) list \<times> tok list) option"
where
  "parse_value 0 ts = None"
| "parse_value (Suc n) [] = None"
| "parse_value (Suc n) (TStr s # ts) = (case join_strs s ts of (s', ts') \<Rightarrow> Some (PStr s', ts'))"
| "parse_value (Suc n) (TInt k # ts) = Some (PInt (int k), ts)"
| "parse_value (Suc n) (TMinus # ts) =
     (case ts of TInt k # ts' \<Rightarrow> Some (PInt (- int k), ts') | _ \<Rightarrow> None)"
| "parse_value (Suc n) (TName x # ts) =
     (if x = ''None'' then Some (PNone, ts)
      else if x = ''True'' then Some (PBool True, ts)
      else if x = ''False'' then Some (PBool False, ts)
      else None)"
| "parse_value (Suc n) (TLBrack # ts) =
     (case parse_elems n ts of None \<Rightarrow> None | Some (vs, ts') \<Rightarrow> Some (PList vs, ts'))"
| "parse_value (Suc n) (TLBrace # ts) =
     (case parse_pairs n ts of None \<Rightarrow> None
      | Some (kvs, ts') \<Rightarrow>
          (case dict_of kvs of None \<Rightarrow> None | Some d \<Rightarrow> Some (PDict d, ts')))"
| "parse_value (Suc n) (TRBrace # ts) = None"
| "parse_value (Suc n) (TRBrack # ts) = None"
| "parse_value (Suc n) (TColon # ts) = None"
| "parse_value (Suc n) (TComma # ts) = None"
| "parse_elems 0 ts = None"
| "parse_elems (Suc n) ts =
     (case ts of
        TRBrack # ts' \<Rightarrow> Some ([], ts')
      | _ \<Rightarrow>
          (case parse_value n ts of None \<Rightarrow> None
           | Some (v, ts1) \<Rightarrow>
               (case ts1 of
                  TRBrack # ts2 \<Rightarrow> Some ([v], ts2)
                | TComma # ts2 \<Rightarrow>
                    (case parse_elems n ts2 of None \<Rightarrow> None
                     | Some (vs, ts3) \<Rightarrow> Some (v # vs, ts3))
                | _ \<Rightarrow> None)))"
| "parse_pairs 0 ts = None"
| "parse_pairs (Suc n) ts =
     (case ts of
        TRBrace # ts' \<Rightarrow> Some ([], ts')
      | _ \<Rightarrow>
          (case parse_value n ts of None \<Rightarrow> None
           | Some (k, ts1) \<Rightarrow>
               (case ts1 of
                  TColon # ts2 \<Rightarrow>
                    (case parse_value n ts2 of None \<Rightarrow> None
                     | Some (v, ts3) \<Rightarrow>
                         (case ts3 of
                            TRBrace # ts4 \<Rightarrow> Some ([(k, v)], ts4)
                          | TComma # ts4 \<Rightarrow>
                              (case parse_pairs n ts4 of None \<Rightarrow> None
                               | Some (kvs, ts5) \<Rightarrow> Some ((k, v) # kvs, ts5))
                          | _ \<Rightarrow> None))
                | _ \<Rightarrow> None)))"

text \<open>
  \<^verbatim>\<open>literal_eval\<close> removes leading spaces and tabs, parses the text as one expression and
  converts it. Every failure of the model is an \<^verbatim>\<open>Exception\<close> (\<^verbatim>\<open>SyntaxError\<close>, \<^verbatim>\<open>ValueError\<close>
  or \<^verbatim>\<open>TypeError\<close> in Python); the model does not tell them apart.
\<close>

definition literal_eval :: "string \<Rightarrow> pyexc + pyval" where
  "literal_eval s =
     (case lex (LLead False) (dropWhile (\<lambda>c. c = CHR '' '' \<or> c = CHR 0x09) s) of
        None \<Rightarrow> Inl (ExceptionE ''SyntaxError'')
      | Some ts \<Rightarrow>
          (case parse_value (2 * length ts + 2) ts of
             Some (v, []) \<Rightarrow> Inr v
           | _ \<Rightarrow> Inl (ExceptionE ''SyntaxError'')))"

section \<open>The pipeline state\<close>

text \<open>
  A figure is what has been drawn on it, an image the bytes \<^verbatim>\<open>savefig\<close> makes of a figure;
  both are opaque texts here. A dataframe has named columns and rows of values.
\<close>

type_synonym figure = string
type_synonym image = string

record dataframe =
  columns :: "string list"
  rows :: "pyval list list"

text \<open>
  The objects bound in the scope handed to \<^verbatim>\<open>exec\<close>: the sheet's dataframe (the object
  itself, not a copy), the module \<^verbatim>\<open>matplotlib.pyplot\<close> and the module \<^verbatim>\<open>pandas\<close>.
\<close>

datatype binding = DfObj dataframe | PltModule | PdModule

type_synonym scope = "(string \<times> binding) list"

text \<open>
  The two messages \<open>make_plots\<close> prints:
  \<^verbatim>\<open>Error executing plot code for {chart_name}: {e}\<close> and
  \<^verbatim>\<open>No figure generated for {chart_name} in {sheet['sheet_name']}\<close>,
  kept as their arguments.
\<close>

datatype logline = ExecError pyval pyexc | NoFigure pyval string

text \<open>A file is plain bytes (an uploaded source, a file some code wrote) or a written report:
  pages of an image and a caption.\<close>

datatype blob = Bytes string | Pdf "(image \<times> string) list"

text \<open>The calls made to the outside: a chat completion with its messages (role, content),
  and an \<^verbatim>\<open>exec(code, globals, locals)\<close>.\<close>

datatype call = ChatCall "(string \<times> string) list" | ExecCall string scope scope

text \<open>
  The world outside the pipeline state: pyplot's registry of open figures by number
  (process-wide), the files on disk, what was printed, and the calls made so far. The
  last is a record kept for the properties below; the pipeline appends to it at each call
  and restores it after an \<^verbatim>\<open>exec\<close>, so that no executed code changes it.
\<close>

record world =
  figs :: "(nat \<times> figure) list"
  files :: "string \<rightharpoonup> blob"
  stdout :: "logline list"
  trace :: "call list"

text \<open>
  \<^verbatim>\<open>class SheetState(TypedDict)\<close>; a key that is absent until its stage has run is an
  option. \<open>visuals\<close> holds whatever \<^verbatim>\<open>literal_eval\<close> returned.
\<close>

record SheetState =
  sheet_name :: string
  summary :: pyval
  profile :: pyval
  df :: dataframe
  insights :: "string option"
  visuals :: "pyval option"
  pdf_path :: "string option"

record DataProfileState =
  filepath :: string
  sheets :: "SheetState list option"

text \<open>
  What the pipeline calls and this repository does not define: the directory of the
  package (\<^verbatim>\<open>BASE_DIR\<close>), pandas' and the profiler's functions (\<^verbatim>\<open>app/profiler.py\<close> is not
  among the sources), \<^verbatim>\<open>str()\<close> on values and dataframes, the two system prompts (the second
  is an f-string over \<^verbatim>\<open>df\<close> and \<^verbatim>\<open>df_columns\<close>), the chat client with its fixed keyword
  arguments, \<^verbatim>\<open>ast.literal_eval\<close>, \<^verbatim>\<open>exec\<close>, \<^verbatim>\<open>Figure.savefig\<close>, and whether a path can be opened
  for writing. \<^verbatim>\<open>savefig\<close> draws the figure and can raise. \<^verbatim>\<open>exec\<close> runs arbitrary code: it gets the dataframe object and the world, and
  returns what it raised, if anything, with the dataframe and the world as the code left
  them (what ran before a raise stays done).
\<close>

record env =
  base_dir :: string
  read_csv :: "string \<Rightarrow> world \<Rightarrow> pyexc + dataframe"
  parse_excel :: "string \<Rightarrow> world \<Rightarrow> pyexc + (string \<times> dataframe) list"
  basic_summary :: "dataframe \<Rightarrow> pyval"
  profile_to_json :: "dataframe \<Rightarrow> pyval"
  py_str :: "pyval \<Rightarrow> string"
  df_str :: "dataframe \<Rightarrow> string"
  insight_prompt :: string
  plot_prompt :: "string \<Rightarrow> string \<Rightarrow> string"
  chat :: "(string \<times> string) list \<Rightarrow> world \<Rightarrow> pyexc + string"
  ast_literal_eval :: "string \<Rightarrow> pyexc + pyval"
  exec :: "string \<Rightarrow> scope \<Rightarrow> scope \<Rightarrow> dataframe \<Rightarrow> world \<Rightarrow> pyexc option \<times> dataframe \<times> world"
  savefig :: "figure \<Rightarrow> pyexc + image"
  can_write :: "string \<Rightarrow> bool"

section \<open>Paths\<close>

text \<open>\<^verbatim>\<open>os.path.join\<close> and \<^verbatim>\<open>os.path.basename\<close> of \<^verbatim>\<open>posixpath\<close>, for two components.\<close>

definition path_join :: "string \<Rightarrow> string \<Rightarrow> string" where
  "path_join a b =
     (if startswith b ''/'' then b
      else if a = [] \<or> endswith a ''/'' then a @ b
      else a @ ''/'' @ b)"

definition basename :: "string \<Rightarrow> string" where
  "basename p = rev (takeWhile (\<lambda>c. c \<noteq> CHR ''/'') (rev p))"

definition REPORT_DIR :: "env \<Rightarrow> string" where
  "REPORT_DIR E = path_join (base_dir E) ''generated_reports''"

definition UPLOAD_DIR :: "env \<Rightarrow> string" where
  "UPLOAD_DIR E = path_join (base_dir E) ''uploads''"

section \<open>Stage 1: get_data_profile\<close>

fun profile_sheets :: "env \<Rightarrow> (string \<times> dataframe) list \<Rightarrow> SheetState list" where
  "profile_sheets E [] = []"
| "profile_sheets E ((name, d) # rest) =
     \<lparr>sheet_name = name, summary = basic_summary E d, profile = profile_to_json E d,
      df = d, insights = None, visuals = None, pdf_path = None\<rparr> # profile_sheets E rest"

definition get_data_profile ::
  "env \<Rightarrow> DataProfileState \<Rightarrow> world \<Rightarrow> (pyexc + DataProfileState) \<times> world" where
  "get_data_profile E st w =
     (case (if endswith (filepath st) ''.csv''
            then (case read_csv E (filepath st) w of
                    Inl e \<Rightarrow> Inl e | Inr d \<Rightarrow> Inr [(''Sheet1'', d)])
            else parse_excel E (filepath st) w) of
        Inl e \<Rightarrow> (Inl e, w)
      | Inr named \<Rightarrow> (Inr (st\<lparr>sheets := Some (profile_sheets E named)\<rparr>), w))"

section \<open>Stage 2: generate_insights\<close>

definition insight_messages :: "env \<Rightarrow> SheetState \<Rightarrow> (string \<times> string) list" where
  "insight_messages E s =
     [(''system'', insight_prompt E),
      (''user'', ''Sheet:'' @ sheet_name s @ ''\<newline> Summary:'' @ py_str E (summary s)
                 @ ''\<newline> Profile:'' @ py_str E (profile s))]"

text \<open>
  The loop over \<^verbatim>\<open>state["sheets"]\<close>; \<open>acc\<close> is \<^verbatim>\<open>updated_sheets\<close>. The response text is
  stored as it comes: there is no test on it.
\<close>

fun insights_loop ::
  "env \<Rightarrow> SheetState list \<Rightarrow> SheetState list \<Rightarrow> world \<Rightarrow> (pyexc + SheetState list) \<times> world" where
  "insights_loop E [] acc w = (Inr acc, w)"
| "insights_loop E (s # ss) acc w =
     (let msgs = insight_messages E s;
          w1 = w\<lparr>trace := trace w @ [ChatCall msgs]\<rparr>
      in case chat E msgs w of
           Inl e \<Rightarrow> (Inl e, w1)
         | Inr content \<Rightarrow> insights_loop E ss (acc @ [s\<lparr>insights := Some content\<rparr>]) w1)"

definition generate_insights ::
  "env \<Rightarrow> DataProfileState \<Rightarrow> world \<Rightarrow> (pyexc + DataProfileState) \<times> world" where
  "generate_insights E st w =
     (case sheets st of
        None \<Rightarrow> (Inl (ExceptionE ''KeyError''), w)
      | Some ss \<Rightarrow>
          (case insights_loop E ss [] w of
             (Inl e, w') \<Rightarrow> (Inl e, w')
           | (Inr ss', w') \<Rightarrow> (Inr (st\<lparr>sheets := Some ss'\<rparr>), w')))"

section \<open>Stage 3: suggest_plots\<close>

definition plot_messages :: "env \<Rightarrow> SheetState \<Rightarrow> string \<Rightarrow> (string \<times> string) list" where
  "plot_messages E s ins =
     [(''system'', plot_prompt E (df_str E (df s)) (py_str E (PList (map PStr (columns (df s)))))),
      (''user'', ''Business Insights: '' @ ins)]"

text \<open>Lines 167 to 176 for one response: strip the fence, then \<^verbatim>\<open>ast.literal_eval(raw)\<close>.\<close>

definition parse_response :: "env \<Rightarrow> string \<Rightarrow> pyexc + pyval" where
  "parse_response E raw = ast_literal_eval E (strip_code_fence raw)"

fun plots_loop ::
  "env \<Rightarrow> SheetState list \<Rightarrow> SheetState list \<Rightarrow> world \<Rightarrow> (pyexc + SheetState list) \<times> world" where
  "plots_loop E [] acc w = (Inr acc, w)"
| "plots_loop E (s # ss) acc w =
     (case insights s of
        None \<Rightarrow> (Inl (ExceptionE ''KeyError''), w)
      | Some ins \<Rightarrow>
          (let msgs = plot_messages E s ins;
               w1 = w\<lparr>trace := trace w @ [ChatCall msgs]\<rparr>
           in case chat E msgs w of
                Inl e \<Rightarrow> (Inl e, w1)
              | Inr raw \<Rightarrow>
                  (case parse_response E raw of
                     Inl e \<Rightarrow> (Inl e, w1)
                   | Inr v \<Rightarrow> plots_loop E ss (acc @ [s\<lparr>visuals := Some v\<rparr>]) w1)))"

definition suggest_plots ::
  "env \<Rightarrow> DataProfileState \<Rightarrow> world \<Rightarrow> (pyexc + DataProfileState) \<times> world" where
  "suggest_plots E st w =
     (case sheets st of
        None \<Rightarrow> (Inl (ExceptionE ''KeyError''), w)
      | Some ss \<Rightarrow>
          (case plots_loop E ss [] w of
             (Inl e, w') \<Rightarrow> (Inl e, w')
           | (Inr ss', w') \<Rightarrow> (Inr (st\<lparr>sheets := Some ss'\<rparr>), w')))"

section \<open>Stage 4: make_plots\<close>

text \<open>
  \<^verbatim>\<open>chart.get(key, default)\<close>: a dict answers with the value or the default; any other
  value has no method \<^verbatim>\<open>get\<close> (\<^verbatim>\<open>AttributeError\<close>).
\<close>

fun dict_get :: "pyval \<Rightarrow> string \<Rightarrow> pyval \<Rightarrow> pyexc + pyval" where
  "dict_get (PDict kvs) k dflt =
     Inr (case map_of kvs (PStr k) of None \<Rightarrow> dflt | Some v \<Rightarrow> v)"
| "dict_get v k dflt = Inl (ExceptionE ''AttributeError'')"

text \<open>
  \<^verbatim>\<open>plt.get_fignums()\<close> is the sorted list of the registered numbers, so
  \<^verbatim>\<open>[plt.figure(n) for n in plt.get_fignums()]\<close> is the registered figures by number, and
  \<^verbatim>\<open>figs[-1]\<close> the one with the greatest number. \<^verbatim>\<open>plt.close(fig)\<close> removes that figure
  from the registry and no other.
\<close>

definition all_figures :: "(nat \<times> figure) list \<Rightarrow> (nat \<times> figure) list" where
  "all_figures reg = sort_key fst reg"

definition plt_close :: "nat \<times> figure \<Rightarrow> (nat \<times> figure) list \<Rightarrow> (nat \<times> figure) list" where
  "plt_close fig reg = filter (\<lambda>f. fst f \<noteq> fst fig) reg"

definition local_scope :: "dataframe \<Rightarrow> scope" where
  "local_scope d = [(''df'', DfObj d), (''plt'', PltModule), (''pd'', PdModule)]"

text \<open>
  One turn of the loop over \<^verbatim>\<open>sheet["visuals"].items()\<close> (lines 189 to 211), from the
  dataframe, the list \<^verbatim>\<open>images_with_descriptions\<close> and the world to the same three, or to
  the exception that leaves the function. \<^verbatim>\<open>str.replace\<close> exists on a string only. The
  \<^verbatim>\<open>except Exception\<close> handler prints and goes on to the next chart; it is around
  \<^verbatim>\<open>exec\<close> only, so what \<^verbatim>\<open>fig.savefig\<close> raises (line 206) leaves the function, the figure
  still registered.
\<close>

definition chart_step ::
  "env \<Rightarrow> string \<Rightarrow> pyval \<times> pyval \<Rightarrow> dataframe \<Rightarrow> (image \<times> pyval) list \<Rightarrow> world
   \<Rightarrow> (pyexc + dataframe \<times> (image \<times> pyval) list) \<times> world" where
  "chart_step E sn named d imgs w =
     (case named of (chart_name, chart) \<Rightarrow>
      (case dict_get chart ''plot'' (PStr []) of
         Inl e \<Rightarrow> (Inl e, w)
       | Inr (PStr code) \<Rightarrow>
           (let plot_code = py_replace ''plt.show()'' [] code in
            case dict_get chart ''description'' (PStr []) of
              Inl e \<Rightarrow> (Inl e, w)
            | Inr description \<Rightarrow>
                (case exec E plot_code [] (local_scope d) d w of
                   (raised, d', w1) \<Rightarrow>
                     (let w2 = w1\<lparr>trace := trace w @ [ExecCall plot_code [] (local_scope d)]\<rparr>
                      in case raised of
                           Some (ExceptionE m) \<Rightarrow>
                             (Inr (d', imgs),
                              w2\<lparr>stdout := stdout w2 @ [ExecError chart_name (ExceptionE m)]\<rparr>)
                         | Some (BaseExceptionE m) \<Rightarrow> (Inl (BaseExceptionE m), w2)
                         | None \<Rightarrow>
                             (case all_figures (figs w2) of
                                [] \<Rightarrow>
                                  (Inr (d', imgs),
                                   w2\<lparr>stdout := stdout w2 @ [NoFigure chart_name sn]\<rparr>)
                              | f # fs \<Rightarrow>
                                  (let fig = last (f # fs) in
                                   case savefig E (snd fig) of
                                     Inl e \<Rightarrow> (Inl e, w2)
                                   | Inr buf \<Rightarrow>
                                       (Inr (d', imgs @ [(buf, description)]),
                                        w2\<lparr>figs := plt_close fig (figs w2)\<rparr>))))))
       | Inr v \<Rightarrow> (Inl (ExceptionE ''AttributeError''), w)))"

fun chart_loop ::
  "env \<Rightarrow> string \<Rightarrow> (pyval \<times> pyval) list \<Rightarrow> dataframe \<Rightarrow> (image \<times> pyval) list \<Rightarrow> world
   \<Rightarrow> (pyexc + dataframe \<times> (image \<times> pyval) list) \<times> world" where
  "chart_loop E sn [] d imgs w = (Inr (d, imgs), w)"
| "chart_loop E sn (c # cs) d imgs w =
     (case chart_step E sn c d imgs w of
        (Inl e, w') \<Rightarrow> (Inl e, w')
      | (Inr (d', imgs'), w') \<Rightarrow> chart_loop E sn cs d' imgs' w')"

text \<open>
  The page loop (lines 218 to 234). \<^verbatim>\<open>Canvas.drawString\<close> takes a string; a caption of
  another type is modelled as its raising.
\<close>

fun draw_pages :: "(image \<times> pyval) list \<Rightarrow> pyexc + (image \<times> string) list" where
  "draw_pages [] = Inr []"
| "draw_pages ((img, PStr description) # rest) =
     (case draw_pages rest of Inl e \<Rightarrow> Inl e | Inr pages \<Rightarrow> Inr ((img, description) # pages))"
| "draw_pages ((img, v) # rest) = Inl (ExceptionE ''AttributeError'')"

text \<open>
  One turn of the loop over \<^verbatim>\<open>state['sheets']\<close> (lines 186 to 238). \<^verbatim>\<open>.items()\<close> exists on
  a dict only. \<^verbatim>\<open>c.save()\<close> opens the file and writes the pages; nothing catches what it
  raises. The dataframe of the sheet is the object the chart code ran on.
\<close>

definition render_sheet :: "env \<Rightarrow> SheetState \<Rightarrow> world \<Rightarrow> (pyexc + SheetState) \<times> world" where
  "render_sheet E s w =
     (case visuals s of
        None \<Rightarrow> (Inl (ExceptionE ''KeyError''), w)
      | Some (PDict charts) \<Rightarrow>
          (case chart_loop E (sheet_name s) charts (df s) [] w of
             (Inl e, w1) \<Rightarrow> (Inl e, w1)
           | (Inr (d', images_with_descriptions), w1) \<Rightarrow>
               (let pdf_filename = path_join (REPORT_DIR E) (sheet_name s @ ''.pdf'') in
                case draw_pages images_with_descriptions of
                  Inl e \<Rightarrow> (Inl e, w1)
                | Inr pages \<Rightarrow>
                    if can_write E pdf_filename
                    then (Inr (s\<lparr>df := d', pdf_path := Some (basename pdf_filename)\<rparr>),
                          w1\<lparr>files := (files w1)(pdf_filename \<mapsto> Pdf pages)\<rparr>)
                    else (Inl (ExceptionE ''OSError''), w1)))
      | Some v \<Rightarrow> (Inl (ExceptionE ''AttributeError''), w))"

fun make_plots_loop ::
  "env \<Rightarrow> SheetState list \<Rightarrow> SheetState list \<Rightarrow> world \<Rightarrow> (pyexc + SheetState list) \<times> world" where
  "make_plots_loop E [] acc w = (Inr acc, w)"
| "make_plots_loop E (s # ss) acc w =
     (case render_sheet E s w of
        (Inl e, w') \<Rightarrow> (Inl e, w')
      | (Inr s', w') \<Rightarrow> make_plots_loop E ss (acc @ [s']) w')"

definition make_plots ::
  "env \<Rightarrow> DataProfileState \<Rightarrow> world \<Rightarrow> (pyexc + DataProfileState) \<times> world" where
  "make_plots E st w =
     (case sheets st of
        None \<Rightarrow> (Inl (ExceptionE ''KeyError''), w)
      | Some ss \<Rightarrow>
          (case make_plots_loop E ss [] w of
             (Inl e, w') \<Rightarrow> (Inl e, w')
           | (Inr ss', w') \<Rightarrow> (Inr (st\<lparr>sheets := Some ss'\<rparr>), w')))"

section \<open>The workflow and the upload endpoint (main.py)\<close>

text \<open>
  The compiled graph is the chain \<^verbatim>\<open>get_data_profile\<close>, \<^verbatim>\<open>generate_insights\<close>,
  \<^verbatim>\<open>suggest_plots\<close>, \<^verbatim>\<open>make_plots\<close>; an exception in a node leaves \<^verbatim>\<open>workflow.invoke\<close>.
\<close>

definition and_then ::
  "(pyexc + DataProfileState) \<times> world
   \<Rightarrow> (DataProfileState \<Rightarrow> world \<Rightarrow> (pyexc + DataProfileState) \<times> world)
   \<Rightarrow> (pyexc + DataProfileState) \<times> world" where
  "and_then r node = (case r of (Inl e, w) \<Rightarrow> (Inl e, w) | (Inr st, w) \<Rightarrow> node st w)"

definition workflow_invoke ::
  "env \<Rightarrow> DataProfileState \<Rightarrow> world \<Rightarrow> (pyexc + DataProfileState) \<times> world" where
  "workflow_invoke E initial_state w =
     and_then (and_then (and_then (get_data_profile E initial_state w)
       (generate_insights E)) (suggest_plots E)) (make_plots E)"

datatype body = ErrorBody string | WorkflowFailed pyexc | Success "string list"

datatype response = JSONResponse nat body

text \<open>
  Lines 87 to 93: the names of the reports, for the sheets that have a non-empty
  \<^verbatim>\<open>pdf_path\<close> whose file exists under \<^verbatim>\<open>REPORT_DIR\<close>.
\<close>

fun collect_pdfs :: "env \<Rightarrow> world \<Rightarrow> SheetState list \<Rightarrow> string list" where
  "collect_pdfs E w [] = []"
| "collect_pdfs E w (s # ss) =
     (case pdf_path s of
        None \<Rightarrow> collect_pdfs E w ss
      | Some pdf_name \<Rightarrow>
          if pdf_name \<noteq> [] \<and> files w (path_join (REPORT_DIR E) pdf_name) \<noteq> None
          then pdf_name # collect_pdfs E w ss
          else collect_pdfs E w ss)"

text \<open>
  \<^verbatim>\<open>upload_file\<close>: the file type test, the copy of the upload, the workflow inside
  \<^verbatim>\<open>try ... except Exception\<close>, the list of reports. An exception that is no \<^verbatim>\<open>Exception\<close>
  leaves the endpoint (\<open>Inl\<close>).
\<close>

definition upload_file :: "env \<Rightarrow> string \<Rightarrow> string \<Rightarrow> world \<Rightarrow> (pyexc + response) \<times> world" where
  "upload_file E filename content w =
     (if \<not> (endswith filename ''.csv'' \<or> endswith filename ''.xlsx'' \<or> endswith filename ''.xls'')
      then (Inr (JSONResponse 400 (ErrorBody ''Invalid file type'')), w)
      else
        (let file_path = path_join (UPLOAD_DIR E) filename in
         if \<not> can_write E file_path
         then (Inr (JSONResponse 500 (ErrorBody ''File upload failed'')), w)
         else
           (case workflow_invoke E \<lparr>filepath = file_path, sheets = None\<rparr>
                   (w\<lparr>files := (files w)(file_path \<mapsto> Bytes content)\<rparr>) of
              (Inl (ExceptionE m), w') \<Rightarrow>
                (Inr (JSONResponse 500 (WorkflowFailed (ExceptionE m))), w')
            | (Inl (BaseExceptionE m), w') \<Rightarrow> (Inl (BaseExceptionE m), w')
            | (Inr final_state, w') \<Rightarrow>
                (Inr (JSONResponse 200
                   (Success (collect_pdfs E w' (case sheets final_state of
                                                   None \<Rightarrow> [] | Some ss \<Rightarrow> ss)))), w'))))"

section \<open>A sample environment\<close>

text \<open>
  Concrete collaborators, for running the pipeline on examples. \<open>sample_exec\<close> says what
  CPython with matplotlib and pandas does on the code texts the examples use, and stands
  for nothing on any other text (it answers \<^verbatim>\<open>SyntaxError\<close>):
  \<^item> \<^verbatim>\<open>plt.figure()\<close> registers a new figure under the next free number, and \<^verbatim>\<open>plt.plot\<close>
    draws on it;
  \<^item> \<^verbatim>\<open>df['missing']\<close> raises \<^verbatim>\<open>KeyError\<close>, after the figure of the same text was made;
  \<^item> \<^verbatim>\<open>df['b'] = 0\<close> adds a column to the dataframe object in place;
  \<^item> \<^verbatim>\<open>df.to_csv('leak.csv')\<close> writes a file;
  \<^item> \<^verbatim>\<open>raise SystemExit\<close> raises an exception that is no \<^verbatim>\<open>Exception\<close>;
  \<^item> the empty text does nothing.
\<close>

definition next_fignum :: "(nat \<times> figure) list \<Rightarrow> nat" where
  "next_fignum reg = Suc (foldr max (map fst reg) 0)"

definition plt_figure :: "figure \<Rightarrow> world \<Rightarrow> world" where
  "plt_figure drawn w = w\<lparr>figs := figs w @ [(next_fignum (figs w), drawn)]\<rparr>"

definition sample_exec ::
  "string \<Rightarrow> scope \<Rightarrow> scope \<Rightarrow> dataframe \<Rightarrow> world \<Rightarrow> pyexc option \<times> dataframe \<times> world" where
  "sample_exec code globals locals d w =
     (if code = [] then (None, d, w)
      else if code = ''fig = plt.figure(); plt.plot(df['a'])''
        then (None, d, plt_figure ''line of a'' w)
      else if code = ''fig = plt.figure(); plt.plot(df['missing'])''
        then (Some (ExceptionE ''KeyError''), d, plt_figure ''blank'' w)
      else if code = ''fig1 = plt.figure(); fig2 = plt.figure(); plt.plot(df['a'])''
        then (None, d, plt_figure ''line of a'' (plt_figure ''blank'' w))
      else if code = ''df['b'] = 0''
        then (None, d\<lparr>columns := columns d @ [''b''], rows := map (\<lambda>r. r @ [PInt 0]) (rows d)\<rparr>, w)
      else if code = ''df.to_csv('leak.csv')''
        then (None, d, w\<lparr>files := (files w)(''leak.csv'' \<mapsto> Bytes ''a,1,2'')\<rparr>)
      else if code = ''raise SystemExit''
        then (Some (BaseExceptionE ''SystemExit''), d, w)
      else (Some (ExceptionE ''SyntaxError''), d, w))"

definition sample_df :: dataframe where
  "sample_df = \<lparr>columns = [''a''], rows = [[PInt 1], [PInt 2]]\<rparr>"

text \<open>
  The sample chat service answers the insight prompt with a sentence and the plot prompt
  with one chart in a \<^verbatim>\<open>```json\<close> fence. A workbook has the two sheets \<^verbatim>\<open>North\<close> and \<^verbatim>\<open>South\<close>.
\<close>

definition sample_chat :: "(string \<times> string) list \<Rightarrow> world \<Rightarrow> pyexc + string" where
  \<open>sample_chat msgs w =
     (if map snd (take 1 msgs) = [''insights, please'']
      then Inr ''a grows''
      else Inr ''```json\<newline>{"chart1": {"plot": "fig = plt.figure(); plt.plot(df['a'])", "description": "trend of a"}}\<newline>```'')\<close>

definition sample_env :: env where
  "sample_env =
     \<lparr>base_dir = ''/app'',
      read_csv = (\<lambda>path w. case files w path of
                    Some (Bytes text) \<Rightarrow> Inr sample_df
                  | _ \<Rightarrow> Inl (ExceptionE ''FileNotFoundError'')),
      parse_excel = (\<lambda>path w. case files w path of
                    Some (Bytes text) \<Rightarrow> Inr [(''North'', sample_df), (''South'', sample_df)]
                  | _ \<Rightarrow> Inl (ExceptionE ''FileNotFoundError'')),
      basic_summary = (\<lambda>d. PDict [(PStr ''rows'', PInt (int (length (rows d))))]),
      profile_to_json = (\<lambda>d. PDict []),
      py_str = (\<lambda>v. ''<value>''),
      df_str = (\<lambda>d. ''<frame>''),
      insight_prompt = ''insights, please'',
      plot_prompt = (\<lambda>frame cols. ''charts, please''),
      chat = sample_chat,
      ast_literal_eval = literal_eval,
      exec = sample_exec,
      savefig = (\<lambda>drawn. Inr (''png of '' @ drawn)),
      can_write = (\<lambda>path. True)\<rparr>"

definition empty_world :: world where
  "empty_world = \<lparr>figs = [], files = Map.empty, stdout = [], trace = []\<rparr>"

section \<open>Notions the properties are stated with\<close>

text \<open>
  The shape the specification gives to a planner result (component 4.4), in its words:
  a mapping whose keys are strings and whose values are objects with exactly the two
  fields \<^verbatim>\<open>plot\<close> and \<^verbatim>\<open>description\<close>, both strings.
\<close>

fun is_pstr :: "pyval \<Rightarrow> bool" where
  "is_pstr (PStr s) = True"
| "is_pstr v = False"

fun spec_chart_shape :: "pyval \<Rightarrow> bool" where
  "spec_chart_shape (PDict fs) =
     (length fs = 2
      \<and> (case map_of fs (PStr ''plot'') of None \<Rightarrow> False | Some v \<Rightarrow> is_pstr v)
      \<and> (case map_of fs (PStr ''description'') of None \<Rightarrow> False | Some v \<Rightarrow> is_pstr v))"
| "spec_chart_shape v = False"

fun spec_plan_shape :: "pyval \<Rightarrow> bool" where
  "spec_plan_shape (PDict kvs) = list_all (\<lambda>kv. is_pstr (fst kv) \<and> spec_chart_shape (snd kv)) kvs"
| "spec_plan_shape v = False"

definition sample_sheet :: SheetState where
  "sample_sheet =
     \<lparr>sheet_name = ''Sheet1'', summary = PDict [], profile = PDict [], df = sample_df,
      insights = Some ''a grows'', visuals = None, pdf_path = None\<rparr>"

text \<open>
  A chart specification as the type annotation \<^verbatim>\<open>Dict[str, Dict[str, Any]]\<close> and the prompt
  have it: the value is a dict, and \<^verbatim>\<open>plot\<close> and \<^verbatim>\<open>description\<close>, when present, are strings.
  Either field may be missing.
\<close>

fun wf_chart :: "pyval \<times> pyval \<Rightarrow> bool" where
  "wf_chart (chart_name, PDict kvs) =
     ((case map_of kvs (PStr ''plot'') of None \<Rightarrow> True | Some v \<Rightarrow> is_pstr v)
      \<and> (case map_of kvs (PStr ''description'') of None \<Rightarrow> True | Some v \<Rightarrow> is_pstr v))"
| "wf_chart (chart_name, v) = False"

text \<open>The code text and the caption \<open>chart_step\<close> works with, for such a chart.\<close>

definition plot_code_of :: "pyval \<Rightarrow> string" where
  "plot_code_of chart =
     (case dict_get chart ''plot'' (PStr []) of
        Inr (PStr code) \<Rightarrow> py_replace ''plt.show()'' [] code
      | _ \<Rightarrow> [])"

definition description_of :: "pyval \<Rightarrow> pyval" where
  "description_of chart =
     (case dict_get chart ''description'' (PStr []) of Inr v \<Rightarrow> v | Inl e \<Rightarrow> PStr [])"

text \<open>
  A call is restricted when it is an \<^verbatim>\<open>exec\<close> whose globals are the empty dict and whose
  locals bind exactly \<^verbatim>\<open>df\<close> to a dataframe, \<^verbatim>\<open>plt\<close> to pyplot and \<^verbatim>\<open>pd\<close> to pandas.
\<close>

fun restricted_call :: "call \<Rightarrow> bool" where
  "restricted_call (ExecCall code globals locals) =
     (globals = [] \<and> map fst locals = [''df'', ''plt'', ''pd'']
      \<and> (case map snd locals of [DfObj d, PltModule, PdModule] \<Rightarrow> True | _ \<Rightarrow> False))"
| "restricted_call (ChatCall msgs) = False"

fun exec_code_of :: "call \<Rightarrow> string option" where
  "exec_code_of (ExecCall code globals locals) = Some code"
| "exec_code_of (ChatCall msgs) = None"

definition exec_codes :: "call list \<Rightarrow> string list" where
  "exec_codes calls = List.map_filter exec_code_of calls"

text \<open>The datasets of the sheets, in order.\<close>

definition datasets :: "DataProfileState \<Rightarrow> dataframe list" where
  "datasets st = (case sheets st of None \<Rightarrow> [] | Some ss \<Rightarrow> map df ss)"

text \<open>The first three nodes of the workflow, up to the renderer.\<close>

definition stages_before_render ::
  "env \<Rightarrow> DataProfileState \<Rightarrow> world \<Rightarrow> (pyexc + DataProfileState) \<times> world" where
  "stages_before_render E initial_state w =
     and_then (and_then (get_data_profile E initial_state w) (generate_insights E)) (suggest_plots E)"

text \<open>Two sample chart specifications: one that plots column \<^verbatim>\<open>a\<close>, one whose code makes a
  figure and then raises \<^verbatim>\<open>KeyError\<close>.\<close>

definition plotting_spec :: "string \<Rightarrow> pyval" where
  "plotting_spec caption =
     PDict [(PStr ''plot'', PStr ''fig = plt.figure(); plt.plot(df['a'])''),
            (PStr ''description'', PStr caption)]"

definition failing_spec :: "string \<Rightarrow> pyval" where
  "failing_spec caption =
     PDict [(PStr ''plot'', PStr ''fig = plt.figure(); plt.plot(df['missing'])''),
            (PStr ''description'', PStr caption)]"

text \<open>The two sheets of the sample workbook as ingestion makes them, and an uploaded
  workbook on disk.\<close>

definition ingested_sheet :: "string \<Rightarrow> SheetState" where
  "ingested_sheet name =
     \<lparr>sheet_name = name, summary = PDict [(PStr ''rows'', PInt 2)], profile = PDict [],
      df = sample_df, insights = None, visuals = None, pdf_path = None\<rparr>"

definition uploaded_world :: world where
  "uploaded_world = empty_world\<lparr>files := (files empty_world)(''data.xlsx'' \<mapsto> Bytes ''a,1,2'')\<rparr>"

section \<open>Properties of the planner's parsing\<close>

lemma backquote_not_space: "\<not> is_space (CHR 0x60)"
  by (simp add: is_space_def)

lemma dropWhile_blank_prefix:
  "list_all is_space ws \<Longrightarrow> dropWhile is_space (ws @ xs) = dropWhile is_space xs"
  by (induction ws) auto

lemma dropWhile_before_fence:
  "dropWhile is_space (xs @ ''```'') = dropWhile is_space xs @ ''```''"
  by (induction xs) (auto simp: backquote_not_space)

lemma py_strip_prepend_blank:
  "list_all is_space ws \<Longrightarrow> py_strip (ws @ xs) = py_strip xs"
  by (simp add: py_strip_def dropWhile_blank_prefix)

lemma py_strip_append_blank:
  assumes "list_all is_space ws"
  shows "py_strip (xs @ ws) = py_strip xs"
proof (cases "list_all is_space xs")
  case True
  with assms have "list_all is_space (xs @ ws)" by simp
  then have a: "dropWhile is_space (xs @ ws) = []"
    unfolding dropWhile_eq_Nil_conv by (simp add: list_all_iff)
  from True have b: "dropWhile is_space xs = []"
    unfolding dropWhile_eq_Nil_conv by (simp add: list_all_iff)
  show ?thesis unfolding py_strip_def a b by simp
next
  case False
  then obtain x where "x \<in> set xs" and "\<not> is_space x" by (auto simp: list_all_iff)
  then have z: "dropWhile is_space (xs @ ws) = dropWhile is_space xs @ ws"
    by (rule dropWhile_append1)
  have tail: "dropWhile is_space (rev ws @ ys) = dropWhile is_space ys" for ys
    using assms by (intro dropWhile_blank_prefix) (simp add: list_all_iff)
  have "py_strip (xs @ ws) = rev (dropWhile is_space (rev ws @ rev (dropWhile is_space xs)))"
    unfolding py_strip_def z by simp
  also have "\<dots> = py_strip xs"
    unfolding tail py_strip_def ..
  finally show ?thesis .
qed

lemma py_strip_dropWhile: "py_strip (dropWhile is_space xs) = py_strip xs"
  by (simp add: py_strip_def dropWhile_idem)

lemma py_strip_keeps_fence:
  "py_strip (xs @ ''```'') = dropWhile is_space xs @ ''```''"
  by (simp add: py_strip_def dropWhile_before_fence backquote_not_space)

text \<open>With the closing mark, and any whitespace around the text and after the mark.\<close>

lemma strip_json_fence:
  assumes "list_all is_space ws1" and "list_all is_space ws2" and "list_all is_space ws3"
  shows "strip_code_fence (''```json'' @ ws1 @ t @ ws2 @ ''```'' @ ws3) = py_strip t"
proof -
  let ?z = "dropWhile is_space (t @ ws2)"
  have a: "startswith (''```json'' @ ws1 @ t @ ws2 @ ''```'' @ ws3) ''```json''"
    by (simp add: startswith_def)
  have b: "drop (length ''```json'') (''```json'' @ ws1 @ t @ ws2 @ ''```'' @ ws3)
             = ws1 @ t @ ws2 @ ''```'' @ ws3"
    by simp
  have "py_strip (ws1 @ t @ ws2 @ ''```'' @ ws3) = py_strip (((t @ ws2) @ ''```'') @ ws3)"
    using py_strip_prepend_blank [OF assms(1), of "t @ ws2 @ ''```'' @ ws3"] by simp
  also have "\<dots> = py_strip ((t @ ws2) @ ''```'')"
    by (rule py_strip_append_blank [OF assms(3)])
  also have "\<dots> = ?z @ ''```''"
    by (rule py_strip_keeps_fence)
  finally have r1: "py_strip (ws1 @ t @ ws2 @ ''```'' @ ws3) = ?z @ ''```''" .
  have c: "endswith (?z @ ''```'') ''```''"
    unfolding endswith_def by (rule suffixI [of _ ?z]) simp
  have d: "take (length (?z @ ''```'') - length ''```'') (?z @ ''```'') = ?z"
    by simp
  have e: "py_strip ?z = py_strip t"
    using py_strip_append_blank [OF assms(2), of t] by (simp only: py_strip_dropWhile)
  show ?thesis
    unfolding strip_code_fence_def Let_def
    by (simp only: a b if_True r1 c d e)
qed

text \<open>Without a closing mark.\<close>

lemma strip_json_fence_open:
  assumes "list_all is_space ws1" and "list_all is_space ws2"
      and "\<not> endswith (py_strip t) ''```''"
  shows "strip_code_fence (''```json'' @ ws1 @ t @ ws2) = py_strip t"
proof -
  have a: "startswith (''```json'' @ ws1 @ t @ ws2) ''```json''"
    by (simp add: startswith_def)
  have b: "drop (length ''```json'') (''```json'' @ ws1 @ t @ ws2) = ws1 @ t @ ws2"
    by simp
  have r1: "py_strip (ws1 @ t @ ws2) = py_strip t"
    using py_strip_prepend_blank [OF assms(1), of "t @ ws2"] py_strip_append_blank [OF assms(2), of t]
    by simp
  show ?thesis
    unfolding strip_code_fence_def Let_def
    using assms(3) by (simp only: a b if_True r1 if_False)
qed

text \<open>
  C2, as the code has it. The fence the planner removes opens with \<^verbatim>\<open>```json\<close> at the very
  start of the response. For every text \<open>t\<close> and all whitespace \<open>ws1\<close>, \<open>ws2\<close>, \<open>ws3\<close>: of the
  response \<^verbatim>\<open>```json\<close> \<open>ws1 t ws2\<close> \<^verbatim>\<open>```\<close> \<open>ws3\<close>, what reaches \<^verbatim>\<open>literal_eval\<close> is \<open>t\<close> without
  its surrounding whitespace; the same holds for the response \<^verbatim>\<open>```json\<close> \<open>ws1 t ws2\<close> with no
  closing mark, when the stripped \<open>t\<close> does not itself end in \<^verbatim>\<open>```\<close>. So for a \<open>t\<close> that
  has no surrounding whitespace, strip-then-parse of the wrapped text is the parse of \<open>t\<close>
  itself.
\<close>

theorem json_fence_strip_then_parse:
  assumes "list_all is_space ws1" and "list_all is_space ws2" and "list_all is_space ws3"
  shows "parse_response E (''```json'' @ ws1 @ t @ ws2 @ ''```'' @ ws3) = ast_literal_eval E (py_strip t)
       \<and> (\<not> endswith (py_strip t) ''```'' \<longrightarrow>
            parse_response E (''```json'' @ ws1 @ t @ ws2) = ast_literal_eval E (py_strip t))
       \<and> (py_strip t = t \<longrightarrow>
            parse_response E (''```json'' @ ws1 @ t @ ws2 @ ''```'' @ ws3) = ast_literal_eval E t)"
  using strip_json_fence [OF assms, of t] strip_json_fence_open [OF assms(1,2), of t]
  by (simp add: parse_response_def)

theorem json_fence_strip_then_parse_witness:
  \<open>list_all is_space ''\<newline>'' \<and> list_all is_space ''\<newline> '' \<and> list_all is_space '' \<newline>'' \<and>
   py_strip ''{"chart1": {}}'' = ''{"chart1": {}}'' \<and>
   \<not> endswith (py_strip ''{"chart1": {}}'') ''```'' \<and>
   parse_response sample_env (''```json'' @ ''\<newline>'' @ ''{"chart1": {}}'' @ ''\<newline> '' @ ''```'' @ '' \<newline>'')
     = Inr (PDict [(PStr ''chart1'', PDict [])]) \<and>
   parse_response sample_env (''```json'' @ ''\<newline>'' @ ''{"chart1": {}}'' @ ''\<newline> '')
     = Inr (PDict [(PStr ''chart1'', PDict [])])\<close>
proof -
  have h1: "list_all is_space ''\<newline>''" by (simp add: is_space_def)
  have h2: "list_all is_space ''\<newline> ''" by (simp add: is_space_def)
  have h3: "list_all is_space '' \<newline>''" by (simp add: is_space_def)
  have h4: \<open>py_strip ''{"chart1": {}}'' = ''{"chart1": {}}''\<close>
    by (simp add: py_strip_def is_space_def)
  have h5: \<open>\<not> endswith (py_strip ''{"chart1": {}}'') ''```''\<close>
    by code_simp
  have h6: \<open>ast_literal_eval sample_env ''{"chart1": {}}'' = Inr (PDict [(PStr ''chart1'', PDict [])])\<close>
    by code_simp
  note inst = json_fence_strip_then_parse [OF h1 h2 h3, of sample_env \<open>''{"chart1": {}}''\<close>]
  from inst h4 h6
  have a: \<open>parse_response sample_env (''```json'' @ ''\<newline>'' @ ''{"chart1": {}}'' @ ''\<newline> '' @ ''```'' @ '' \<newline>'')
     = Inr (PDict [(PStr ''chart1'', PDict [])])\<close>
    by simp
  from inst h4 h5 h6
  have b: \<open>parse_response sample_env (''```json'' @ ''\<newline>'' @ ''{"chart1": {}}'' @ ''\<newline> '')
     = Inr (PDict [(PStr ''chart1'', PDict [])])\<close>
    by simp
  from h1 h2 h3 h4 h5 a b show ?thesis by blast
qed

text \<open>
  C2 as stated fails on the bare fence: of the empty mapping wrapped in \<^verbatim>\<open>```\<close> and
  \<^verbatim>\<open>```\<close>, only the closing mark is removed, and the text that reaches \<^verbatim>\<open>literal_eval\<close>
  is no literal, while the unwrapped text parses to the empty mapping.
\<close>

theorem any_fence_counterexample:
  \<open>literal_eval ''{}'' = Inr (PDict []) \<and>
   strip_code_fence ''```\<newline>{}\<newline>```'' = ''```\<newline>{}'' \<and>
   parse_response sample_env ''```\<newline>{}\<newline>```'' = Inl (ExceptionE ''SyntaxError'')\<close>
  by code_simp

section \<open>The planner stores what literal_eval returns\<close>

lemma plots_loop_append:
  "plots_loop E (xs @ ys) acc w =
     (case plots_loop E xs acc w of
        (Inl e, w') \<Rightarrow> (Inl e, w')
      | (Inr acc', w') \<Rightarrow> plots_loop E ys acc' w')"
proof (induction xs arbitrary: acc w)
  case Nil
  then show ?case by simp
next
  case (Cons x xs)
  then show ?case
    by (auto simp: Let_def split: option.splits sum.splits)
qed

text \<open>
  C4, as the code has it. Let the planner have gone through the sheets \<open>pre\<close>, and let the
  chat call for the next sheet return the text \<open>raw\<close>. The planner strips the fence and
  hands the text to \<^verbatim>\<open>literal_eval\<close>. If that raises, the exception leaves the planner, and
  nothing more is called. If that returns a value, the value is stored as the sheet's
  chart specifications as it is, whatever its shape, and the loop goes on: nothing checks
  keys or fields.
\<close>

theorem planner_stores_literal_or_raises:
  assumes ss: "sheets st = Some (pre @ s # post)"
      and pre: "plots_loop E pre [] w = (Inr acc, w1)"
      and ins: "insights s = Some ins"
      and call: "chat E (plot_messages E s ins) w1 = Inr raw"
  shows "(case ast_literal_eval E (strip_code_fence raw) of
            Inl e \<Rightarrow>
              suggest_plots E st w =
                (Inl e, w1\<lparr>trace := trace w1 @ [ChatCall (plot_messages E s ins)]\<rparr>)
          | Inr v \<Rightarrow>
              plots_loop E (pre @ [s]) [] w =
                (Inr (acc @ [s\<lparr>visuals := Some v\<rparr>]),
                 w1\<lparr>trace := trace w1 @ [ChatCall (plot_messages E s ins)]\<rparr>))"
proof (cases "ast_literal_eval E (strip_code_fence raw)")
  case (Inl e)
  have "plots_loop E (pre @ s # post) [] w =
          (Inl e, w1\<lparr>trace := trace w1 @ [ChatCall (plot_messages E s ins)]\<rparr>)"
    using pre ins call Inl by (simp add: plots_loop_append parse_response_def Let_def)
  then have "suggest_plots E st w =
          (Inl e, w1\<lparr>trace := trace w1 @ [ChatCall (plot_messages E s ins)]\<rparr>)"
    using ss by (simp add: suggest_plots_def)
  with Inl show ?thesis by simp
next
  case (Inr v)
  have "plots_loop E (pre @ [s]) [] w =
          (Inr (acc @ [s\<lparr>visuals := Some v\<rparr>]),
           w1\<lparr>trace := trace w1 @ [ChatCall (plot_messages E s ins)]\<rparr>)"
    using pre ins call Inr by (simp add: plots_loop_append parse_response_def Let_def)
  with Inr show ?thesis by simp
qed

theorem planner_stores_literal_or_raises_witness:
  \<open>plots_loop (sample_env\<lparr>chat := \<lambda>m w. Inr ''[1, 2]''\<rparr>) ([] @ [sample_sheet]) [] empty_world
     = (Inr ([] @ [sample_sheet\<lparr>visuals := Some (PList [PInt 1, PInt 2])\<rparr>]),
        empty_world\<lparr>trace := trace empty_world
           @ [ChatCall (plot_messages (sample_env\<lparr>chat := \<lambda>m w. Inr ''[1, 2]''\<rparr>) sample_sheet ''a grows'')]\<rparr>)
   \<and> suggest_plots (sample_env\<lparr>chat := \<lambda>m w. Inr ''{"chart1": ''\<rparr>)
        \<lparr>filepath = ''f.csv'', sheets = Some ([] @ sample_sheet # [])\<rparr> empty_world
     = (Inl (ExceptionE ''SyntaxError''),
        empty_world\<lparr>trace := trace empty_world
           @ [ChatCall (plot_messages (sample_env\<lparr>chat := \<lambda>m w. Inr ''{"chart1": ''\<rparr>) sample_sheet ''a grows'')]\<rparr>)\<close>
proof -
  let ?E = \<open>sample_env\<lparr>chat := \<lambda>m w. Inr ''[1, 2]''\<rparr>\<close>
  let ?F = \<open>sample_env\<lparr>chat := \<lambda>m w. Inr ''{"chart1": ''\<rparr>\<close>
  let ?st = \<open>\<lparr>filepath = ''f.csv'', sheets = Some ([] @ sample_sheet # [])\<rparr>\<close>
  have ss: "sheets ?st = Some ([] @ sample_sheet # [])" by simp
  have i: "insights sample_sheet = Some ''a grows''" by (simp add: sample_sheet_def)
  have preE: "plots_loop ?E [] [] empty_world = (Inr [], empty_world)" by simp
  have preF: "plots_loop ?F [] [] empty_world = (Inr [], empty_world)" by simp
  have cE: "chat ?E (plot_messages ?E sample_sheet ''a grows'') empty_world = Inr ''[1, 2]''" by simp
  have cF: \<open>chat ?F (plot_messages ?F sample_sheet ''a grows'') empty_world = Inr ''{"chart1": ''\<close> by simp
  have pE: "ast_literal_eval ?E (strip_code_fence ''[1, 2]'') = Inr (PList [PInt 1, PInt 2])"
    by code_simp
  have pF: \<open>ast_literal_eval ?F (strip_code_fence ''{"chart1": '') = Inl (ExceptionE ''SyntaxError'')\<close>
    by code_simp
  from planner_stores_literal_or_raises [OF ss preE i cE]
  have a: "plots_loop ?E ([] @ [sample_sheet]) [] empty_world
     = (Inr ([] @ [sample_sheet\<lparr>visuals := Some (PList [PInt 1, PInt 2])\<rparr>]),
        empty_world\<lparr>trace := trace empty_world @ [ChatCall (plot_messages ?E sample_sheet ''a grows'')]\<rparr>)"
    by (simp only: pE sum.case)
  from planner_stores_literal_or_raises [OF ss preF i cF]
  have b: "suggest_plots ?F ?st empty_world
     = (Inl (ExceptionE ''SyntaxError''),
        empty_world\<lparr>trace := trace empty_world @ [ChatCall (plot_messages ?F sample_sheet ''a grows'')]\<rparr>)"
    by (simp only: pF sum.case)
  from a b show ?thesis by blast
qed

text \<open>
  C4 as stated fails: the response \<^verbatim>\<open>{"chart1": 5}\<close> is a literal but not a mapping of
  the specified shape, and the planner returns normally with it as the sheet's chart specs.
\<close>

theorem shape_not_enforced_counterexample:
  \<open>\<not> spec_plan_shape (PDict [(PStr ''chart1'', PInt 5)]) \<and>
   fst (suggest_plots (sample_env\<lparr>chat := \<lambda>m w. Inr ''{"chart1": 5}''\<rparr>)
          \<lparr>filepath = ''f.csv'', sheets = Some [sample_sheet]\<rparr> empty_world)
     = Inr \<lparr>filepath = ''f.csv'',
            sheets = Some [sample_sheet\<lparr>visuals := Some (PDict [(PStr ''chart1'', PInt 5)])\<rparr>]\<rparr>\<close>
  by code_simp

section \<open>The chart loop\<close>

lemma dict_get_wf:
  assumes "wf_chart (name, chart)"
  shows "\<exists>code. dict_get chart ''plot'' (PStr []) = Inr (PStr code)
              \<and> plot_code_of chart = py_replace ''plt.show()'' [] code"
    and "\<exists>cap. dict_get chart ''description'' (PStr []) = Inr (PStr cap)
              \<and> description_of chart = PStr cap"
proof -
  from assms obtain kvs where c: "chart = PDict kvs" by (cases chart) auto
  show "\<exists>code. dict_get chart ''plot'' (PStr []) = Inr (PStr code)
              \<and> plot_code_of chart = py_replace ''plt.show()'' [] code"
  proof (cases "map_of kvs (PStr ''plot'')")
    case None
    then show ?thesis using c by (simp add: plot_code_of_def)
  next
    case (Some v)
    with assms c obtain code where "v = PStr code" by (cases v) auto
    with Some c show ?thesis by (simp add: plot_code_of_def)
  qed
  show "\<exists>cap. dict_get chart ''description'' (PStr []) = Inr (PStr cap)
              \<and> description_of chart = PStr cap"
  proof (cases "map_of kvs (PStr ''description'')")
    case None
    then show ?thesis using c by (simp add: description_of_def)
  next
    case (Some v)
    with assms c obtain cap where "v = PStr cap" by (cases v) auto
    with Some c show ?thesis by (simp add: description_of_def)
  qed
qed

text \<open>What one turn does with a well-formed chart, by what \<^verbatim>\<open>exec\<close> and \<^verbatim>\<open>savefig\<close> answer.\<close>

lemma chart_step_wf:
  assumes wf: "wf_chart (name, chart)"
      and ex: "exec E (plot_code_of chart) [] (local_scope d) d w = (raised, d', w1)"
  shows "chart_step E sn (name, chart) d imgs w =
     (let w2 = w1\<lparr>trace := trace w @ [ExecCall (plot_code_of chart) [] (local_scope d)]\<rparr>
      in case raised of
           Some (ExceptionE m) \<Rightarrow>
             (Inr (d', imgs), w2\<lparr>stdout := stdout w2 @ [ExecError name (ExceptionE m)]\<rparr>)
         | Some (BaseExceptionE m) \<Rightarrow> (Inl (BaseExceptionE m), w2)
         | None \<Rightarrow>
             (case all_figures (figs w2) of
                [] \<Rightarrow> (Inr (d', imgs), w2\<lparr>stdout := stdout w2 @ [NoFigure name sn]\<rparr>)
              | f # fs \<Rightarrow>
                  (case savefig E (snd (last (f # fs))) of
                     Inl e \<Rightarrow> (Inl e, w2)
                   | Inr buf \<Rightarrow>
                       (Inr (d', imgs @ [(buf, description_of chart)]),
                        w2\<lparr>figs := plt_close (last (f # fs)) (figs w2)\<rparr>))))"
proof -
  from dict_get_wf(1) [OF wf] obtain code where
    p: "dict_get chart ''plot'' (PStr []) = Inr (PStr code)"
    and pc: "plot_code_of chart = py_replace ''plt.show()'' [] code" by blast
  from dict_get_wf(2) [OF wf] obtain cap where
    q: "dict_get chart ''description'' (PStr []) = Inr (PStr cap)"
    and qc: "description_of chart = PStr cap" by blast
  show ?thesis
    unfolding chart_step_def using ex
    by (simp add: p q pc [symmetric] qc Let_def
             split: option.splits pyexc.splits list.splits sum.splits)
qed

text \<open>A turn that returns has called \<^verbatim>\<open>exec\<close> once on the chart's code and added at most
  one page, with the chart's description, a string.\<close>

lemma chart_step_result:
  assumes wf: "wf_chart c"
      and r: "chart_step E sn c d imgs w = (Inr (d', imgs'), w')"
  shows "\<exists>new. imgs' = imgs @ new
           \<and> trace w' = trace w @ [ExecCall (plot_code_of (snd c)) [] (local_scope d)]
           \<and> (new = [] \<or> (\<exists>img. new = [(img, description_of (snd c))]))
           \<and> list_all (\<lambda>p. is_pstr (snd p)) new"
proof -
  obtain name chart where c: "c = (name, chart)" by (cases c)
  obtain raised d1 w1 where
    ex: "exec E (plot_code_of chart) [] (local_scope d) d w = (raised, d1, w1)"
    by (cases "exec E (plot_code_of chart) [] (local_scope d) d w")
  from dict_get_wf(2) [of name chart] wf c obtain cap where
    qc: "description_of chart = PStr cap" by blast
  from r show ?thesis
    unfolding c
    by (auto simp: chart_step_wf [OF wf [unfolded c] ex] qc Let_def
             split: option.splits pyexc.splits list.splits sum.splits)
qed

lemma chart_loop_append:
  "chart_loop E sn (xs @ ys) d imgs w =
     (case chart_loop E sn xs d imgs w of
        (Inl e, w') \<Rightarrow> (Inl e, w')
      | (Inr (d', imgs'), w') \<Rightarrow> chart_loop E sn ys d' imgs' w')"
  by (induction xs arbitrary: d imgs w) (auto split: prod.splits sum.splits)

lemma make_plots_loop_append:
  "make_plots_loop E (xs @ ys) acc w =
     (case make_plots_loop E xs acc w of
        (Inl e, w') \<Rightarrow> (Inl e, w')
      | (Inr acc', w') \<Rightarrow> make_plots_loop E ys acc' w')"
proof (induction xs arbitrary: acc w)
  case Nil
  then show ?case by simp
next
  case (Cons x xs)
  then show ?case by (cases "render_sheet E x w") (auto split: sum.splits)
qed

lemma chart_loop_result:
  assumes wf: "list_all wf_chart cs"
      and r: "chart_loop E sn cs d imgs w = (Inr (d', imgs'), w')"
  shows "\<exists>new calls. imgs' = imgs @ new
           \<and> trace w' = trace w @ calls
           \<and> exec_codes calls = map (\<lambda>c. plot_code_of (snd c)) cs
           \<and> length calls = length cs
           \<and> subseq (map snd new) (map (\<lambda>c. description_of (snd c)) cs)
           \<and> list_all (\<lambda>p. is_pstr (snd p)) new"
  using wf r
proof (induction cs arbitrary: d imgs w)
  case Nil
  then show ?case by (simp add: exec_codes_def List.map_filter_def)
next
  case (Cons c cs)
  from Cons.prems have wc: "wf_chart c" and wcs: "list_all wf_chart cs" by simp_all
  from Cons.prems(2) obtain d1 imgs1 w1 where
    s: "chart_step E sn c d imgs w = (Inr (d1, imgs1), w1)"
    and l: "chart_loop E sn cs d1 imgs1 w1 = (Inr (d', imgs'), w')"
    by (auto split: prod.splits sum.splits)
  from chart_step_result [OF wc s] obtain new1 where
    i1: "imgs1 = imgs @ new1"
    and t1: "trace w1 = trace w @ [ExecCall (plot_code_of (snd c)) [] (local_scope d)]"
    and n1: "new1 = [] \<or> (\<exists>img. new1 = [(img, description_of (snd c))])"
    and p1: "list_all (\<lambda>p. is_pstr (snd p)) new1" by blast
  from Cons.IH [OF wcs l] obtain new2 calls2 where
    i2: "imgs' = imgs1 @ new2"
    and t2: "trace w' = trace w1 @ calls2"
    and c2: "exec_codes calls2 = map (\<lambda>c. plot_code_of (snd c)) cs"
    and len2: "length calls2 = length cs"
    and s2: "subseq (map snd new2) (map (\<lambda>c. description_of (snd c)) cs)"
    and p2: "list_all (\<lambda>p. is_pstr (snd p)) new2" by blast
  let ?call = "ExecCall (plot_code_of (snd c)) [] (local_scope d)"
  have a: "imgs' = imgs @ (new1 @ new2)" using i1 i2 by simp
  have b: "trace w' = trace w @ (?call # calls2)" using t1 t2 by simp
  have e: "exec_codes (?call # calls2) = map (\<lambda>c. plot_code_of (snd c)) (c # cs)"
    using c2 by (simp add: exec_codes_def List.map_filter_def)
  have f: "subseq (map snd (new1 @ new2)) (map (\<lambda>c. description_of (snd c)) (c # cs))"
    using n1 s2 by auto
  have g: "list_all (\<lambda>p. is_pstr (snd p)) (new1 @ new2)" using p1 p2 by simp
  from a b e f g len2 show ?case
    by (intro exI [of _ "new1 @ new2"] exI [of _ "?call # calls2"]) simp
qed

lemma draw_pages_strings:
  "list_all (\<lambda>p. is_pstr (snd p)) imgs \<Longrightarrow>
   \<exists>pages. draw_pages imgs = Inr pages \<and> map (\<lambda>p. (fst p, PStr (snd p))) pages = imgs"
proof (induction imgs)
  case Nil
  then show ?case by simp
next
  case (Cons p imgs)
  obtain img v where p: "p = (img, v)" by (cases p)
  with Cons.prems obtain cap where v: "v = PStr cap" by (cases v) auto
  from Cons obtain pages where "draw_pages imgs = Inr pages"
    and "map (\<lambda>p. (fst p, PStr (snd p))) pages = imgs" by auto
  then show ?case using p v by simp
qed

lemma basename_plain:
  assumes "CHR ''/'' \<notin> set b"
  shows "basename b = b"
proof -
  have "takeWhile (\<lambda>c. c \<noteq> CHR ''/'') (rev b) = rev b"
    unfolding takeWhile_eq_all_conv using assms by auto
  then show ?thesis by (simp only: basename_def rev_rev_ident)
qed

lemma basename_after_slash:
  assumes "CHR ''/'' \<notin> set b"
  shows "basename (pre @ CHR ''/'' # b) = b"
proof -
  have "takeWhile (\<lambda>c. c \<noteq> CHR ''/'') (rev b @ CHR ''/'' # rev pre)
          = rev b @ takeWhile (\<lambda>c. c \<noteq> CHR ''/'') (CHR ''/'' # rev pre)"
    by (rule takeWhile_append2) (use assms in auto)
  then have "takeWhile (\<lambda>c. c \<noteq> CHR ''/'') (rev (pre @ CHR ''/'' # b)) = rev b"
    by simp
  then show ?thesis by (simp only: basename_def rev_rev_ident)
qed

lemma basename_join_plain:
  assumes "CHR ''/'' \<notin> set b" and "b \<noteq> []"
  shows "basename (path_join dir b) = b"
proof -
  from assms have ns: "\<not> startswith b ''/''"
    by (cases b) (auto simp: startswith_def)
  show ?thesis
  proof (cases "dir = []")
    case True
    then show ?thesis using ns assms(1) by (simp add: path_join_def basename_plain)
  next
    case False
    show ?thesis
    proof (cases "endswith dir ''/''")
      case True
      then obtain pre where d: "dir = pre @ ''/''" by (auto simp: endswith_def suffix_def)
      have "path_join dir b = pre @ CHR ''/'' # b"
        using ns True by (simp add: path_join_def d)
      then show ?thesis using basename_after_slash [OF assms(1)] by simp
    next
      case no: False
      have "path_join dir b = dir @ CHR ''/'' # b"
        using ns no False by (simp add: path_join_def)
      then show ?thesis using basename_after_slash [OF assms(1)] by simp
    qed
  qed
qed

lemma basename_join:
  assumes "CHR ''/'' \<notin> set name"
  shows "basename (path_join dir (name @ ''.pdf'')) = name @ ''.pdf''"
  by (rule basename_join_plain) (use assms in auto)

section \<open>One chart among the charts of a sheet\<close>




section \<open>The report of a sheet\<close>

text \<open>
  C7, as the code has it. For every sheet whose chart specifications are well formed and
  whose chart loop returns (no chart code raised outside \<^verbatim>\<open>Exception\<close> and no \<^verbatim>\<open>savefig\<close>
  raised), however many charts were captured, none included: when the report path can be
  written, the renderer returns the sheet, a document with one page per captured chart is
  at the path named after the sheet under \<^verbatim>\<open>REPORT_DIR\<close>, and \<open>pdf_path\<close> is the base name of
  that path, which is the sheet name plus \<^verbatim>\<open>.pdf\<close> for a sheet name without a slash. With
  no chart captured the document has no page, and the sheet does not fail.
\<close>

theorem degraded_sheet_still_reports:
  assumes v: "visuals s = Some (PDict charts)"
      and wf: "list_all wf_chart charts"
      and cl: "chart_loop E (sheet_name s) charts (df s) [] w = (Inr (d', imgs), w1)"
      and cw: "can_write E (path_join (REPORT_DIR E) (sheet_name s @ ''.pdf''))"
  shows "\<exists>pages.
           render_sheet E s w =
             (Inr (s\<lparr>df := d',
                     pdf_path := Some (basename (path_join (REPORT_DIR E) (sheet_name s @ ''.pdf'')))\<rparr>),
              w1\<lparr>files := (files w1)(path_join (REPORT_DIR E) (sheet_name s @ ''.pdf'') \<mapsto> Pdf pages)\<rparr>)
         \<and> map (\<lambda>p. (fst p, PStr (snd p))) pages = imgs
         \<and> (CHR ''/'' \<notin> set (sheet_name s) \<longrightarrow>
              basename (path_join (REPORT_DIR E) (sheet_name s @ ''.pdf'')) = sheet_name s @ ''.pdf'')
         \<and> (imgs = [] \<longrightarrow> pages = [])"
proof -
  let ?path = "path_join (REPORT_DIR E) (sheet_name s @ ''.pdf'')"
  from chart_loop_result [OF wf cl] have str: "list_all (\<lambda>p. is_pstr (snd p)) imgs" by auto
  from draw_pages_strings [OF str] obtain pages where
    dp: "draw_pages imgs = Inr pages"
    and caps: "map (\<lambda>p. (fst p, PStr (snd p))) pages = imgs" by blast
  have r: "render_sheet E s w =
             (Inr (s\<lparr>df := d', pdf_path := Some (basename ?path)\<rparr>),
              w1\<lparr>files := (files w1)(?path \<mapsto> Pdf pages)\<rparr>)"
    using v cl dp cw by (simp add: render_sheet_def Let_def)
  have e: "imgs = [] \<longrightarrow> pages = []" using caps by auto
  have b: "CHR ''/'' \<notin> set (sheet_name s) \<longrightarrow> basename ?path = sheet_name s @ ''.pdf''"
    by (simp add: basename_join)
  from r caps e b show ?thesis by (intro exI [of _ pages]) simp
qed

theorem degraded_sheet_still_reports_witness:
  "list_all wf_chart [(PStr ''chart1'', failing_spec ''lost'')]
   \<and> fst (chart_loop sample_env ''Sheet1'' [(PStr ''chart1'', failing_spec ''lost'')]
            sample_df [] empty_world) = Inr (sample_df, [])
   \<and> can_write sample_env (path_join (REPORT_DIR sample_env) (''Sheet1'' @ ''.pdf''))
   \<and> (\<exists>w'. render_sheet sample_env
               (sample_sheet\<lparr>visuals := Some (PDict [(PStr ''chart1'', failing_spec ''lost'')])\<rparr>)
               empty_world
            = (Inr (sample_sheet\<lparr>visuals := Some (PDict [(PStr ''chart1'', failing_spec ''lost'')]),
                                df := sample_df, pdf_path := Some ''Sheet1.pdf''\<rparr>), w')
        \<and> files w' ''/app/generated_reports/Sheet1.pdf'' = Some (Pdf []))"
proof -
  let ?cs = "[(PStr ''chart1'', failing_spec ''lost'')]"
  let ?s = "sample_sheet\<lparr>visuals := Some (PDict ?cs)\<rparr>"
  let ?cl = "chart_loop sample_env (sheet_name ?s) ?cs (df ?s) [] empty_world"
  let ?run = "render_sheet sample_env ?s empty_world"
  have v: "visuals ?s = Some (PDict ?cs)" by simp
  have wf: "list_all wf_chart ?cs" by (simp add: failing_spec_def)
  have "fst ?cl = Inr (sample_df, [])" by code_simp
  then have cl: "?cl = (Inr (sample_df, []), snd ?cl)" by (simp add: prod_eq_iff)
  have cw: "can_write sample_env (path_join (REPORT_DIR sample_env) (sheet_name ?s @ ''.pdf''))"
    by (simp add: sample_env_def)
  have b: "basename (path_join (REPORT_DIR sample_env) (sheet_name ?s @ ''.pdf'')) = ''Sheet1.pdf''"
    by code_simp
  have f: "files (snd ?run) ''/app/generated_reports/Sheet1.pdf'' = Some (Pdf [])"
    by code_simp
  from degraded_sheet_still_reports [OF v wf cl cw]
  have "fst ?run = Inr (?s\<lparr>df := sample_df, pdf_path := Some ''Sheet1.pdf''\<rparr>)"
    unfolding b by auto
  then have "?run = (Inr (?s\<lparr>df := sample_df, pdf_path := Some ''Sheet1.pdf''\<rparr>), snd ?run)"
    by (simp add: prod_eq_iff)
  with f have "\<exists>w'. ?run = (Inr (?s\<lparr>df := sample_df, pdf_path := Some ''Sheet1.pdf''\<rparr>), w')
        \<and> files w' ''/app/generated_reports/Sheet1.pdf'' = Some (Pdf [])"
    by blast
  moreover have "fst (chart_loop sample_env ''Sheet1'' ?cs sample_df [] empty_world) = Inr (sample_df, [])"
    by code_simp
  moreover have "can_write sample_env (path_join (REPORT_DIR sample_env) (''Sheet1'' @ ''.pdf''))"
    by (simp add: sample_env_def)
  ultimately show ?thesis using wf by simp
qed

text \<open>
  C7 as stated fails: a sheet whose only chart raises \<^verbatim>\<open>SystemExit\<close> captures no chart,
  and the exception leaves the renderer and the endpoint before any document is written.
\<close>

theorem no_report_after_uncaught_exception_counterexample:
  \<open>fst (upload_file
          (sample_env\<lparr>chat := \<lambda>m w. if map snd (take 1 m) = [''insights, please'']
              then Inr ''a grows''
              else Inr ''{"chart1": {"plot": "raise SystemExit", "description": "none"}}''\<rparr>)
          ''data.csv'' ''a,1,2'' empty_world)
     = Inl (BaseExceptionE ''SystemExit'')
   \<and> files (snd (upload_file
          (sample_env\<lparr>chat := \<lambda>m w. if map snd (take 1 m) = [''insights, please'']
              then Inr ''a grows''
              else Inr ''{"chart1": {"plot": "raise SystemExit", "description": "none"}}''\<rparr>)
          ''data.csv'' ''a,1,2'' empty_world)) ''/app/generated_reports/Sheet1.pdf'' = None\<close>
  by code_simp

section \<open>What the renderer calls\<close>

lemma chart_step_calls:
  "\<exists>calls. trace (snd (chart_step E sn c d imgs w)) = trace w @ calls \<and> list_all restricted_call calls"
proof -
  obtain name chart where c: "c = (name, chart)" by (cases c)
  show ?thesis
  proof (cases "dict_get chart ''plot'' (PStr [])")
    case (Inl e)
    then show ?thesis by (simp add: c chart_step_def)
  next
    case (Inr p)
    show ?thesis
    proof (cases p)
      case (PStr code)
      let ?code = "py_replace ''plt.show()'' [] code"
      show ?thesis
      proof (cases "dict_get chart ''description'' (PStr [])")
        case (Inl e)
        then show ?thesis using Inr PStr by (simp add: c chart_step_def)
      next
        case q: (Inr description)
        obtain raised d' w1 where
          ex: "exec E ?code [] (local_scope d) d w = (raised, d', w1)"
          by (cases "exec E ?code [] (local_scope d) d w")
        have r: "restricted_call (ExecCall ?code [] (local_scope d))"
          by (simp add: local_scope_def)
        have "trace (snd (chart_step E sn c d imgs w)) = trace w @ [ExecCall ?code [] (local_scope d)]"
          using Inr PStr q ex
          by (simp add: c chart_step_def Let_def
                   split: option.splits pyexc.splits list.splits sum.splits)
        with r show ?thesis by (intro exI [of _ "[ExecCall ?code [] (local_scope d)]"]) simp
      qed
    qed (use Inr in \<open>simp_all add: c chart_step_def\<close>)
  qed
qed

lemma chart_loop_calls:
  "\<exists>calls. trace (snd (chart_loop E sn cs d imgs w)) = trace w @ calls \<and> list_all restricted_call calls"
proof (induction cs arbitrary: d imgs w)
  case Nil
  then show ?case by simp
next
  case (Cons c cs)
  from chart_step_calls [of E sn c d imgs w] obtain calls1 where
    s: "trace (snd (chart_step E sn c d imgs w)) = trace w @ calls1"
    and r1: "list_all restricted_call calls1" by blast
  show ?case
  proof (cases "chart_step E sn c d imgs w")
    case (Pair r w1)
    show ?thesis
    proof (cases r)
      case (Inl e)
      with Pair s r1 show ?thesis by auto
    next
      case (Inr p)
      obtain d1 imgs1 where p: "p = (d1, imgs1)" by (cases p)
      from Cons.IH [of d1 imgs1 w1] obtain calls2 where
        "trace (snd (chart_loop E sn cs d1 imgs1 w1)) = trace w1 @ calls2"
        and "list_all restricted_call calls2" by blast
      with Pair Inr p s r1 show ?thesis
        by (intro exI [of _ "calls1 @ calls2"]) simp
    qed
  qed
qed

lemma render_sheet_calls:
  "\<exists>calls. trace (snd (render_sheet E s w)) = trace w @ calls \<and> list_all restricted_call calls"
proof (cases "visuals s")
  case None
  then show ?thesis by (simp add: render_sheet_def)
next
  case (Some v)
  show ?thesis
  proof (cases v)
    case (PDict charts)
    from chart_loop_calls [of E "sheet_name s" charts "df s" "[]" w] obtain calls where
      "trace (snd (chart_loop E (sheet_name s) charts (df s) [] w)) = trace w @ calls"
      and "list_all restricted_call calls" by blast
    then show ?thesis using Some PDict
      by (intro exI [of _ calls])
         (auto simp: render_sheet_def Let_def split: prod.splits sum.splits)
  qed (use Some in \<open>simp_all add: render_sheet_def\<close>)
qed

lemma make_plots_loop_calls:
  "\<exists>calls. trace (snd (make_plots_loop E ss acc w)) = trace w @ calls \<and> list_all restricted_call calls"
proof (induction ss arbitrary: acc w)
  case Nil
  then show ?case by simp
next
  case (Cons s ss)
  from render_sheet_calls [of E s w] obtain calls1 where
    s: "trace (snd (render_sheet E s w)) = trace w @ calls1"
    and r1: "list_all restricted_call calls1" by blast
  show ?case
  proof (cases "render_sheet E s w")
    case (Pair r w1)
    show ?thesis
    proof (cases r)
      case (Inl e)
      with Pair s r1 show ?thesis by auto
    next
      case (Inr s')
      from Cons.IH [of "acc @ [s']" w1] obtain calls2 where
        "trace (snd (make_plots_loop E ss (acc @ [s']) w1)) = trace w1 @ calls2"
        and "list_all restricted_call calls2" by blast
      with Pair Inr s r1 show ?thesis
        by (intro exI [of _ "calls1 @ calls2"]) simp
    qed
  qed
qed

text \<open>
  C6, as the code has it. Every call the renderer makes to the outside is an \<^verbatim>\<open>exec\<close> whose
  globals are the empty dict and whose locals bind exactly the three names \<^verbatim>\<open>df\<close>, \<^verbatim>\<open>plt\<close>
  and \<^verbatim>\<open>pd\<close>, to a dataframe, pyplot and pandas. This is a statement about the names bound
  at the start, not about what the code can reach through them.
\<close>

theorem exec_scope_has_three_bindings:
  "\<exists>calls. trace (snd (make_plots E st w)) = trace w @ calls \<and> list_all restricted_call calls"
proof (cases "sheets st")
  case None
  then show ?thesis by (simp add: make_plots_def)
next
  case (Some ss)
  from make_plots_loop_calls [of E ss "[]" w] obtain calls where
    "trace (snd (make_plots_loop E ss [] w)) = trace w @ calls"
    and "list_all restricted_call calls" by blast
  then show ?thesis using Some
    by (intro exI [of _ calls]) (auto simp: make_plots_def split: prod.splits sum.splits)
qed

text \<open>
  C6 as stated fails: chart code that only uses the binding \<^verbatim>\<open>df\<close> writes a file. The call
  is restricted in the sense above, and after the sheet is rendered the file is on disk.
\<close>

theorem binding_set_file_access_counterexample:
  "files empty_world ''leak.csv'' = None
   \<and> list_all restricted_call
        (trace (snd (render_sheet sample_env
           (sample_sheet\<lparr>visuals := Some (PDict [(PStr ''chart1'',
               PDict [(PStr ''plot'', PStr ''df.to_csv('leak.csv')'')])])\<rparr>) empty_world)))
   \<and> files (snd (render_sheet sample_env
           (sample_sheet\<lparr>visuals := Some (PDict [(PStr ''chart1'',
               PDict [(PStr ''plot'', PStr ''df.to_csv('leak.csv')'')])])\<rparr>) empty_world)) ''leak.csv''
       = Some (Bytes ''a,1,2'')"
  by code_simp

section \<open>Figures left in the registry\<close>

text \<open>
  C5 at concrete inputs, from an empty registry. A chart whose code makes a figure and
  then raises leaves that figure registered after its turn; a chart whose code makes two
  figures leaves the first one registered, only the last being closed.
\<close>

theorem figure_left_registered:
  "figs (snd (chart_loop sample_env ''Sheet1'' [(PStr ''chart1'', failing_spec ''one'')]
                sample_df [] empty_world)) = [(1, ''blank'')]
   \<and> figs (snd (chart_loop sample_env ''Sheet1''
                [(PStr ''chart1'',
                  PDict [(PStr ''plot'',
                          PStr ''fig1 = plt.figure(); fig2 = plt.figure(); plt.plot(df['a'])'')])]
                sample_df [] empty_world)) = [(1, ''blank'')]"
  by code_simp

section \<open>The dataset through the stages\<close>

lemma insights_loop_dfs:
  "insights_loop E ss acc w = (Inr out, w') \<Longrightarrow> map df out = map df acc @ map df ss"
proof (induction ss arbitrary: acc w)
  case Nil
  then show ?case by simp
next
  case (Cons s ss)
  show ?case
  proof (cases "chat E (insight_messages E s) w")
    case (Inl e)
    with Cons.prems show ?thesis by (simp add: Let_def)
  next
    case (Inr content)
    with Cons.prems Cons.IH [of "acc @ [s\<lparr>insights := Some content\<rparr>]"
        "w\<lparr>trace := trace w @ [ChatCall (insight_messages E s)]\<rparr>"]
    show ?thesis by (simp add: Let_def)
  qed
qed

lemma plots_loop_dfs:
  "plots_loop E ss acc w = (Inr out, w') \<Longrightarrow> map df out = map df acc @ map df ss"
proof (induction ss arbitrary: acc w)
  case Nil
  then show ?case by simp
next
  case (Cons s ss)
  from Cons.prems obtain ins where i: "insights s = Some ins"
    by (cases "insights s") auto
  from Cons.prems i obtain raw where c: "chat E (plot_messages E s ins) w = Inr raw"
    by (cases "chat E (plot_messages E s ins) w") (auto simp: Let_def)
  from Cons.prems i c obtain v where p: "parse_response E raw = Inr v"
    by (cases "parse_response E raw") (auto simp: Let_def)
  from Cons.prems i c p Cons.IH [of "acc @ [s\<lparr>visuals := Some v\<rparr>]"
      "w\<lparr>trace := trace w @ [ChatCall (plot_messages E s ins)]\<rparr>"]
  show ?case by (simp add: Let_def)
qed

text \<open>The dataframe a turn of the chart loop returns is the one \<^verbatim>\<open>exec\<close> left.\<close>

lemma chart_step_df:
  assumes step: "chart_step E sn c d imgs w = (Inr (d', imgs'), w')"
  shows "d' = fst (snd (exec E (plot_code_of (snd c)) [] (local_scope d) d w))"
proof -
  obtain name chart where c: "c = (name, chart)" by (cases c)
  from step c obtain p where p: "dict_get chart ''plot'' (PStr []) = Inr p"
    by (cases "dict_get chart ''plot'' (PStr [])") (auto simp: chart_step_def)
  from step c p obtain code where code: "p = PStr code"
    by (cases p) (auto simp: chart_step_def)
  have pc: "plot_code_of chart = py_replace ''plt.show()'' [] code"
    using p code by (simp add: plot_code_of_def)
  from step c p code obtain description where
    q: "dict_get chart ''description'' (PStr []) = Inr description"
    by (cases "dict_get chart ''description'' (PStr [])") (auto simp: chart_step_def)
  obtain raised d1 w1 where
    ex: "exec E (plot_code_of chart) [] (local_scope d) d w = (raised, d1, w1)"
    by (cases "exec E (plot_code_of chart) [] (local_scope d) d w")
  from step c p code q ex have "d' = d1"
    by (auto simp: chart_step_def Let_def pc [symmetric]
             split: option.splits pyexc.splits list.splits sum.splits)
  with ex c show ?thesis by simp
qed

lemma chart_loop_df:
  assumes frame: "\<And>cpre c cpost d1 imgs1 w1.
            cs = cpre @ c # cpost \<Longrightarrow>
            chart_loop E sn cpre d imgs w = (Inr (d1, imgs1), w1) \<Longrightarrow>
            fst (snd (exec E (plot_code_of (snd c)) [] (local_scope d1) d1 w1)) = d1"
      and r: "chart_loop E sn cs d imgs w = (Inr (d', imgs'), w')"
  shows "d' = d"
  using frame r
proof (induction cs arbitrary: d' imgs' w' rule: rev_induct)
  case Nil
  then show ?case by simp
next
  case (snoc c cs)
  from snoc.prems(2) obtain d1 imgs1 w1 where
    l: "chart_loop E sn cs d imgs w = (Inr (d1, imgs1), w1)"
    and s: "chart_step E sn c d1 imgs1 w1 = (Inr (d', imgs'), w')"
    by (auto simp: chart_loop_append split: prod.splits sum.splits)
  have "d1 = d"
  proof (rule snoc.IH [OF _ l])
    fix cpre c' cpost d2 imgs2 w2
    assume "cs = cpre @ c' # cpost"
      and "chart_loop E sn cpre d imgs w = (Inr (d2, imgs2), w2)"
    then show "fst (snd (exec E (plot_code_of (snd c')) [] (local_scope d2) d2 w2)) = d2"
      using snoc.prems(1) [of cpre c' "cpost @ [c]" d2 imgs2 w2] by simp
  qed
  moreover from snoc.prems(1) [of cs c "[]" d1 imgs1 w1] l
  have "fst (snd (exec E (plot_code_of (snd c)) [] (local_scope d1) d1 w1)) = d1" by simp
  moreover note chart_step_df [OF s]
  ultimately show ?case by simp
qed

text \<open>The dataset of a rendered sheet is the dataframe its chart loop returned.\<close>

lemma render_sheet_df:
  assumes r: "render_sheet E s w = (Inr s', w')"
  shows "\<exists>charts imgs w1. visuals s = Some (PDict charts)
           \<and> chart_loop E (sheet_name s) charts (df s) [] w = (Inr (df s', imgs), w1)"
proof -
  from r obtain charts where v: "visuals s = Some (PDict charts)"
    by (cases "visuals s"; cases "the (visuals s)") (auto simp: render_sheet_def)
  from r v show ?thesis
    by (auto simp: render_sheet_def Let_def split: prod.splits sum.splits if_splits)
qed

lemma make_plots_loop_dfs:
  assumes frame: "\<And>pre s post acc1 w1 cpre c cpost d imgs w2.
            ss = pre @ s # post \<Longrightarrow>
            make_plots_loop E pre acc w = (Inr acc1, w1) \<Longrightarrow>
            visuals s = Some (PDict (cpre @ c # cpost)) \<Longrightarrow>
            chart_loop E (sheet_name s) cpre (df s) [] w1 = (Inr (d, imgs), w2) \<Longrightarrow>
            fst (snd (exec E (plot_code_of (snd c)) [] (local_scope d) d w2)) = d"
      and r: "make_plots_loop E ss acc w = (Inr out, w')"
  shows "map df out = map df acc @ map df ss"
  using frame r
proof (induction ss arbitrary: out w' rule: rev_induct)
  case Nil
  then show ?case by simp
next
  case (snoc s ss)
  from snoc.prems(2) obtain acc1 w1 s1 where
    l: "make_plots_loop E ss acc w = (Inr acc1, w1)"
    and rs: "render_sheet E s w1 = (Inr s1, w')"
    and out: "out = acc1 @ [s1]"
    by (auto simp: make_plots_loop_append split: prod.splits sum.splits)
  have a: "map df acc1 = map df acc @ map df ss"
  proof (rule snoc.IH [OF _ l])
    fix pre s' post acc2 w2 cpre c cpost d imgs w3
    assume "ss = pre @ s' # post"
      and "make_plots_loop E pre acc w = (Inr acc2, w2)"
      and "visuals s' = Some (PDict (cpre @ c # cpost))"
      and "chart_loop E (sheet_name s') cpre (df s') [] w2 = (Inr (d, imgs), w3)"
    then show "fst (snd (exec E (plot_code_of (snd c)) [] (local_scope d) d w3)) = d"
      using snoc.prems(1) [of pre s' "post @ [s]" acc2 w2 cpre c cpost d imgs w3] by simp
  qed
  from render_sheet_df [OF rs] obtain charts imgs w2 where
    v: "visuals s = Some (PDict charts)"
    and cl: "chart_loop E (sheet_name s) charts (df s) [] w1 = (Inr (df s1, imgs), w2)"
    by blast
  have b: "df s1 = df s"
  proof (rule chart_loop_df [OF _ cl])
    fix cpre c cpost d1 imgs1 w3
    assume "charts = cpre @ c # cpost"
      and "chart_loop E (sheet_name s) cpre (df s) [] w1 = (Inr (d1, imgs1), w3)"
    then show "fst (snd (exec E (plot_code_of (snd c)) [] (local_scope d1) d1 w3)) = d1"
      using snoc.prems(1) [of ss s "[]" acc1 w1 cpre c cpost d1 imgs1 w3] l v by simp
  qed
  from a b out show ?case by simp
qed

text \<open>
  C8, as the code has it. No stage after ingestion writes a sheet's dataset itself: an
  insight stage that completes and a planning stage that completes return every sheet
  with the dataset it had. The renderer hands the dataset object itself to the chart code,
  so a rendering stage that completes returns every sheet with the dataset it had provided
  each execution of chart code that the stage made left the dataframe it was given as it
  was. The executions the stage made are told by their place in the run: the sheets
  \<open>pre\<close> rendered before the sheet \<open>s\<close>, and the charts \<open>cpre\<close> of \<open>s\<close> run before the chart
  \<open>c\<close>, whose code is then executed on the dataframe \<open>d\<close> in the world \<open>wb\<close>.
\<close>

theorem dataset_kept_by_the_stages:
  "(generate_insights E st0 w0 = (Inr st1, w1) \<longrightarrow> datasets st1 = datasets st0)
   \<and> (suggest_plots E st1 w1 = (Inr st2, w2) \<longrightarrow> datasets st2 = datasets st1)
   \<and> (make_plots E st2 w2 = (Inr st3, w3)
        \<and> (\<forall>pre s post acc wa cpre c cpost d imgs wb.
              sheets st2 = Some (pre @ s # post)
              \<and> make_plots_loop E pre [] w2 = (Inr acc, wa)
              \<and> visuals s = Some (PDict (cpre @ c # cpost))
              \<and> chart_loop E (sheet_name s) cpre (df s) [] wa = (Inr (d, imgs), wb)
              \<longrightarrow> fst (snd (exec E (plot_code_of (snd c)) [] (local_scope d) d wb)) = d)
        \<longrightarrow> datasets st3 = datasets st2)"
proof (intro conjI impI)
  assume "generate_insights E st0 w0 = (Inr st1, w1)"
  then show "datasets st1 = datasets st0"
    by (auto simp: generate_insights_def datasets_def dest: insights_loop_dfs
             split: option.splits prod.splits sum.splits)
next
  assume "suggest_plots E st1 w1 = (Inr st2, w2)"
  then show "datasets st2 = datasets st1"
    by (auto simp: suggest_plots_def datasets_def dest: plots_loop_dfs
             split: option.splits prod.splits sum.splits)
next
  assume h: "make_plots E st2 w2 = (Inr st3, w3)
        \<and> (\<forall>pre s post acc wa cpre c cpost d imgs wb.
              sheets st2 = Some (pre @ s # post)
              \<and> make_plots_loop E pre [] w2 = (Inr acc, wa)
              \<and> visuals s = Some (PDict (cpre @ c # cpost))
              \<and> chart_loop E (sheet_name s) cpre (df s) [] wa = (Inr (d, imgs), wb)
              \<longrightarrow> fst (snd (exec E (plot_code_of (snd c)) [] (local_scope d) d wb)) = d)"
  then obtain ss out where ss: "sheets st2 = Some ss"
    and l: "make_plots_loop E ss [] w2 = (Inr out, w3)"
    and st3: "st3 = st2\<lparr>sheets := Some out\<rparr>"
    by (auto simp: make_plots_def split: option.splits prod.splits sum.splits)
  have "map df out = map df ([] :: SheetState list) @ map df ss"
  proof (rule make_plots_loop_dfs [OF _ l])
    fix pre s post acc1 wa cpre c cpost d imgs wb
    assume "ss = pre @ s # post"
      and "make_plots_loop E pre [] w2 = (Inr acc1, wa)"
      and "visuals s = Some (PDict (cpre @ c # cpost))"
      and "chart_loop E (sheet_name s) cpre (df s) [] wa = (Inr (d, imgs), wb)"
    with h ss show "fst (snd (exec E (plot_code_of (snd c)) [] (local_scope d) d wb)) = d"
      by blast
  qed
  with ss st3 show "datasets st3 = datasets st2" by (simp add: datasets_def)
qed

theorem dataset_kept_by_the_stages_witness:
  "(\<exists>w1 w2 w3.
      generate_insights sample_env
         \<lparr>filepath = ''data.xlsx'', sheets = Some [ingested_sheet ''North'', ingested_sheet ''South'']\<rparr>
         empty_world
       = (Inr \<lparr>filepath = ''data.xlsx'',
               sheets = Some [(ingested_sheet ''North'')\<lparr>insights := Some ''a grows''\<rparr>,
                              (ingested_sheet ''South'')\<lparr>insights := Some ''a grows''\<rparr>]\<rparr>, w1)
    \<and> suggest_plots sample_env
         \<lparr>filepath = ''data.xlsx'',
          sheets = Some [(ingested_sheet ''North'')\<lparr>insights := Some ''a grows''\<rparr>,
                         (ingested_sheet ''South'')\<lparr>insights := Some ''a grows''\<rparr>]\<rparr> w1
       = (Inr \<lparr>filepath = ''data.xlsx'',
               sheets = Some [(ingested_sheet ''North'')
                                \<lparr>insights := Some ''a grows'',
                                 visuals := Some (PDict [(PStr ''chart1'', plotting_spec ''trend of a'')])\<rparr>,
                              (ingested_sheet ''South'')
                                \<lparr>insights := Some ''a grows'',
                                 visuals := Some (PDict [(PStr ''chart1'', plotting_spec ''trend of a'')])\<rparr>]\<rparr>, w2)
    \<and> fst (make_plots sample_env
         \<lparr>filepath = ''data.xlsx'',
          sheets = Some [(ingested_sheet ''North'')
                           \<lparr>insights := Some ''a grows'',
                            visuals := Some (PDict [(PStr ''chart1'', plotting_spec ''trend of a'')])\<rparr>,
                         (ingested_sheet ''South'')
                           \<lparr>insights := Some ''a grows'',
                            visuals := Some (PDict [(PStr ''chart1'', plotting_spec ''trend of a'')])\<rparr>]\<rparr> w2)
       = Inr \<lparr>filepath = ''data.xlsx'',
              sheets = Some [(ingested_sheet ''North'')
                               \<lparr>insights := Some ''a grows'',
                                visuals := Some (PDict [(PStr ''chart1'', plotting_spec ''trend of a'')]),
                                pdf_path := Some ''North.pdf''\<rparr>,
                             (ingested_sheet ''South'')
                               \<lparr>insights := Some ''a grows'',
                                visuals := Some (PDict [(PStr ''chart1'', plotting_spec ''trend of a'')]),
                                pdf_path := Some ''South.pdf''\<rparr>]\<rparr>)
   \<and> datasets \<lparr>filepath = ''data.xlsx'',
              sheets = Some [(ingested_sheet ''North'')
                               \<lparr>insights := Some ''a grows'',
                                visuals := Some (PDict [(PStr ''chart1'', plotting_spec ''trend of a'')]),
                                pdf_path := Some ''North.pdf''\<rparr>,
                             (ingested_sheet ''South'')
                               \<lparr>insights := Some ''a grows'',
                                visuals := Some (PDict [(PStr ''chart1'', plotting_spec ''trend of a'')]),
                                pdf_path := Some ''South.pdf''\<rparr>]\<rparr>
     = datasets \<lparr>filepath = ''data.xlsx'',
                 sheets = Some [ingested_sheet ''North'', ingested_sheet ''South'']\<rparr>"
proof -
  let ?E = sample_env
  let ?chart = "(PStr ''chart1'', plotting_spec ''trend of a'')"
  let ?n0 = "ingested_sheet ''North''" and ?s0 = "ingested_sheet ''South''"
  let ?n1 = "?n0\<lparr>insights := Some ''a grows''\<rparr>" and ?s1 = "?s0\<lparr>insights := Some ''a grows''\<rparr>"
  let ?n2 = "?n0\<lparr>insights := Some ''a grows'', visuals := Some (PDict [?chart])\<rparr>"
  let ?s2 = "?s0\<lparr>insights := Some ''a grows'', visuals := Some (PDict [?chart])\<rparr>"
  let ?n3 = "?n0\<lparr>insights := Some ''a grows'', visuals := Some (PDict [?chart]),
                  pdf_path := Some ''North.pdf''\<rparr>"
  let ?s3 = "?s0\<lparr>insights := Some ''a grows'', visuals := Some (PDict [?chart]),
                  pdf_path := Some ''South.pdf''\<rparr>"
  let ?st0 = "\<lparr>filepath = ''data.xlsx'', sheets = Some [?n0, ?s0]\<rparr>"
  let ?st1 = "\<lparr>filepath = ''data.xlsx'', sheets = Some [?n1, ?s1]\<rparr>"
  let ?st2 = "\<lparr>filepath = ''data.xlsx'', sheets = Some [?n2, ?s2]\<rparr>"
  let ?st3 = "\<lparr>filepath = ''data.xlsx'', sheets = Some [?n3, ?s3]\<rparr>"
  let ?i = "generate_insights ?E ?st0 empty_world"
  let ?p = "suggest_plots ?E ?st1 (snd ?i)"
  let ?m = "make_plots ?E ?st2 (snd ?p)"
  have "fst ?i = Inr ?st1" by code_simp
  then have i: "?i = (Inr ?st1, snd ?i)" by (simp add: prod_eq_iff)
  have "fst ?p = Inr ?st2" by code_simp
  then have p: "?p = (Inr ?st2, snd ?p)" by (simp add: prod_eq_iff)
  have fm: "fst ?m = Inr ?st3" by code_simp
  then have m: "?m = (Inr ?st3, snd ?m)" by (simp add: prod_eq_iff)
  have pc: "plot_code_of (snd ?chart) = ''fig = plt.figure(); plt.plot(df['a'])''"
    by code_simp
  have frame: "\<forall>pre s post acc wa cpre c cpost d imgs wb.
              sheets ?st2 = Some (pre @ s # post)
              \<and> make_plots_loop ?E pre [] (snd ?p) = (Inr acc, wa)
              \<and> visuals s = Some (PDict (cpre @ c # cpost))
              \<and> chart_loop ?E (sheet_name s) cpre (df s) [] wa = (Inr (d, imgs), wb)
              \<longrightarrow> fst (snd (exec ?E (plot_code_of (snd c)) [] (local_scope d) d wb)) = d"
  proof (intro allI impI, elim conjE)
    fix pre s post acc wa cpre c cpost d imgs wb
    assume ss: "sheets ?st2 = Some (pre @ s # post)"
      and v: "visuals s = Some (PDict (cpre @ c # cpost))"
    have "s \<in> set (pre @ s # post)" by simp
    also from ss have "pre @ s # post = [?n2, ?s2]" by simp
    finally have "s = ?n2 \<or> s = ?s2" by simp
    then have "visuals s = Some (PDict [?chart])" by auto
    with v have eq: "cpre @ c # cpost = [?chart]" by simp
    have "c \<in> set (cpre @ c # cpost)" by simp
    then have "c = ?chart" unfolding eq by simp
    then have "plot_code_of (snd c) = ''fig = plt.figure(); plt.plot(df['a'])''"
      using pc by simp
    then show "fst (snd (exec ?E (plot_code_of (snd c)) [] (local_scope d) d wb)) = d"
      by (simp add: sample_env_def sample_exec_def)
  qed
  from dataset_kept_by_the_stages [of ?E ?st0 empty_world ?st1 "snd ?i" ?st2 "snd ?p" ?st3 "snd ?m"]
    i p m frame
  have "datasets ?st1 = datasets ?st0 \<and> datasets ?st2 = datasets ?st1
        \<and> datasets ?st3 = datasets ?st2"
    by blast
  then have "datasets ?st3 = datasets ?st0" by simp
  with i p fm show ?thesis by blast
qed

text \<open>
  C8 as stated fails: chart code that adds a column in place changes the dataset of the
  sheet record the renderer returns.
\<close>

theorem dataset_mutated_counterexample:
  "datasets \<lparr>filepath = ''f.csv'',
             sheets = Some [sample_sheet\<lparr>visuals := Some (PDict [(PStr ''chart1'',
                              PDict [(PStr ''plot'', PStr ''df['b'] = 0'')])])\<rparr>]\<rparr> = [sample_df]
   \<and> map_sum id datasets
        (fst (make_plots sample_env
               \<lparr>filepath = ''f.csv'',
                sheets = Some [sample_sheet\<lparr>visuals := Some (PDict [(PStr ''chart1'',
                              PDict [(PStr ''plot'', PStr ''df['b'] = 0'')])])\<rparr>]\<rparr> empty_world))
       = Inr [\<lparr>columns = [''a'', ''b''], rows = [[PInt 1, PInt 0], [PInt 2, PInt 0]]\<rparr>]"
  by code_simp

section \<open>Missing fields of a chart specification\<close>

text \<open>
  C10. A chart specification without a \<^verbatim>\<open>plot\<close> key has the empty text executed, which
  raises nothing and makes no figure, and its missing \<^verbatim>\<open>description\<close> gives the empty
  caption. Run from an empty figure registry such a chart is skipped with the message that
  no figure was generated. It is not skipped when a figure of an earlier chart is still
  registered: after a chart that made two figures, of which the renderer closes the last
  only, the first of them is taken for the figure of the chart without code and becomes
  its page, under its own description.
\<close>

theorem codeless_chart_gets_leftover_figure:
  "plot_code_of (PDict [(PStr ''description'', PStr ''no code'')]) = []
   \<and> description_of (PDict []) = PStr []
   \<and> fst (chart_loop sample_env ''Sheet1''
            [(PStr ''chart2'', PDict [(PStr ''description'', PStr ''no code'')])]
            sample_df [] empty_world)
       = Inr (sample_df, [])
   \<and> stdout (snd (chart_loop sample_env ''Sheet1''
                    [(PStr ''chart2'', PDict [(PStr ''description'', PStr ''no code'')])]
                    sample_df [] empty_world))
       = [NoFigure (PStr ''chart2'') ''Sheet1'']
   \<and> fst (chart_loop sample_env ''Sheet1''
            [(PStr ''chart1'',
              PDict [(PStr ''plot'',
                      PStr ''fig1 = plt.figure(); fig2 = plt.figure(); plt.plot(df['a'])''),
                     (PStr ''description'', PStr ''two figures'')]),
             (PStr ''chart2'', PDict [(PStr ''description'', PStr ''no code'')])]
            sample_df [] empty_world)
       = Inr (sample_df, [(''png of line of a'', PStr ''two figures''),
                          (''png of blank'', PStr ''no code'')])
   \<and> stdout (snd (chart_loop sample_env ''Sheet1''
                    [(PStr ''chart1'',
                      PDict [(PStr ''plot'',
                              PStr ''fig1 = plt.figure(); fig2 = plt.figure(); plt.plot(df['a'])''),
                             (PStr ''description'', PStr ''two figures'')]),
                     (PStr ''chart2'', PDict [(PStr ''description'', PStr ''no code'')])]
                    sample_df [] empty_world))
       = []"
  by code_simp

section \<open>The insight stage\<close>

lemma insights_loop_append:
  "insights_loop E (xs @ ys) acc w =
     (case insights_loop E xs acc w of
        (Inl e, w') \<Rightarrow> (Inl e, w')
      | (Inr acc', w') \<Rightarrow> insights_loop E ys acc' w')"
proof (induction xs arbitrary: acc w)
  case Nil
  then show ?case by simp
next
  case (Cons x xs)
  then show ?case by (cases "chat E (insight_messages E x) w") (simp_all add: Let_def)
qed

lemma insights_loop_world:
  "insights_loop E ss acc w = (Inr out, w') \<Longrightarrow>
   w' = w\<lparr>trace := trace w @ map (\<lambda>s. ChatCall (insight_messages E s)) ss\<rparr>"
proof (induction ss arbitrary: acc w)
  case Nil
  then show ?case by simp
next
  case (Cons s ss)
  show ?case
  proof (cases "chat E (insight_messages E s) w")
    case (Inl e)
    with Cons.prems show ?thesis by (simp add: Let_def)
  next
    case (Inr content)
    with Cons.prems Cons.IH [of "acc @ [s\<lparr>insights := Some content\<rparr>]"
        "w\<lparr>trace := trace w @ [ChatCall (insight_messages E s)]\<rparr>"]
    show ?thesis by (simp add: Let_def)
  qed
qed

text \<open>
  C9, as the code has it. Let ingestion have produced the sheets, and let the insight loop
  have gone through the sheets \<open>pre\<close>. It has then made exactly one chat call per sheet, in
  order, and changed nothing else in the world. For the next sheet it makes one call. If
  that call raises, the exception leaves the whole workflow: the world is the one before
  the run plus the insight calls made, so no later stage has run and nothing was written.
  If the call returns a text, the text is stored as the sheet's insights as it is, empty
  or not, and the loop goes on.
\<close>

theorem insight_stage_one_call_and_fatal_error:
  assumes gdp: "get_data_profile E init w0 = (Inr st, w)"
      and ss: "sheets st = Some (pre @ s # post)"
      and pre: "insights_loop E pre [] w = (Inr acc, w1)"
  shows "w1 = w\<lparr>trace := trace w @ map (\<lambda>s. ChatCall (insight_messages E s)) pre\<rparr>
       \<and> (case chat E (insight_messages E s) w1 of
            Inl e \<Rightarrow>
              workflow_invoke E init w0 =
                (Inl e, w\<lparr>trace := trace w @ map (\<lambda>s. ChatCall (insight_messages E s)) (pre @ [s])\<rparr>)
          | Inr content \<Rightarrow>
              insights_loop E (pre @ [s]) [] w =
                (Inr (acc @ [s\<lparr>insights := Some content\<rparr>]),
                 w\<lparr>trace := trace w @ map (\<lambda>s. ChatCall (insight_messages E s)) (pre @ [s])\<rparr>))"
proof -
  let ?calls = "\<lambda>xs. map (\<lambda>s. ChatCall (insight_messages E s)) xs"
  from insights_loop_world [OF pre] have w1: "w1 = w\<lparr>trace := trace w @ ?calls pre\<rparr>" .
  have tr: "w1\<lparr>trace := trace w1 @ [ChatCall (insight_messages E s)]\<rparr>
              = w\<lparr>trace := trace w @ ?calls (pre @ [s])\<rparr>"
    by (subst (1 2) w1) simp
  show ?thesis
  proof (cases "chat E (insight_messages E s) w1")
    case (Inl e)
    have "insights_loop E (pre @ s # post) [] w = (Inl e, w\<lparr>trace := trace w @ ?calls (pre @ [s])\<rparr>)"
      using pre Inl tr by (simp add: insights_loop_append Let_def)
    then have "generate_insights E st w = (Inl e, w\<lparr>trace := trace w @ ?calls (pre @ [s])\<rparr>)"
      using ss by (simp add: generate_insights_def)
    then have "workflow_invoke E init w0 = (Inl e, w\<lparr>trace := trace w @ ?calls (pre @ [s])\<rparr>)"
      using gdp by (simp add: workflow_invoke_def and_then_def)
    with w1 Inl show ?thesis by simp
  next
    case (Inr content)
    have "insights_loop E (pre @ [s]) [] w =
            (Inr (acc @ [s\<lparr>insights := Some content\<rparr>]), w\<lparr>trace := trace w @ ?calls (pre @ [s])\<rparr>)"
      using pre Inr tr by (simp add: insights_loop_append Let_def)
    with w1 Inr show ?thesis by simp
  qed
qed
theorem insight_stage_one_call_and_fatal_error_witness:
  "fst (get_data_profile (sample_env\<lparr>chat := \<lambda>m w. Inl (ExceptionE ''APIError'')\<rparr>)
          \<lparr>filepath = ''data.xlsx'', sheets = None\<rparr> uploaded_world)
     = Inr \<lparr>filepath = ''data.xlsx'',
            sheets = Some ([] @ ingested_sheet ''North'' # [ingested_sheet ''South''])\<rparr>
   \<and> workflow_invoke (sample_env\<lparr>chat := \<lambda>m w. Inl (ExceptionE ''APIError'')\<rparr>)
        \<lparr>filepath = ''data.xlsx'', sheets = None\<rparr> uploaded_world
     = (Inl (ExceptionE ''APIError''),
        (snd (get_data_profile (sample_env\<lparr>chat := \<lambda>m w. Inl (ExceptionE ''APIError'')\<rparr>)
                \<lparr>filepath = ''data.xlsx'', sheets = None\<rparr> uploaded_world))
        \<lparr>trace := trace (snd (get_data_profile (sample_env\<lparr>chat := \<lambda>m w. Inl (ExceptionE ''APIError'')\<rparr>)
                                \<lparr>filepath = ''data.xlsx'', sheets = None\<rparr> uploaded_world))
                  @ map (\<lambda>s. ChatCall (insight_messages
                                 (sample_env\<lparr>chat := \<lambda>m w. Inl (ExceptionE ''APIError'')\<rparr>) s))
                        ([] @ [ingested_sheet ''North''])\<rparr>)"
proof -
  let ?E = "sample_env\<lparr>chat := \<lambda>m w. Inl (ExceptionE ''APIError'')\<rparr>"
  let ?init = "\<lparr>filepath = ''data.xlsx'', sheets = None\<rparr>"
  let ?st = "\<lparr>filepath = ''data.xlsx'',
             sheets = Some ([] @ ingested_sheet ''North'' # [ingested_sheet ''South''])\<rparr>"
  let ?w = "snd (get_data_profile ?E ?init uploaded_world)"
  have h0: "fst (get_data_profile ?E ?init uploaded_world) = Inr ?st" by code_simp
  then have h1: "get_data_profile ?E ?init uploaded_world = (Inr ?st, ?w)"
    by (simp add: prod_eq_iff)
  have h2: "sheets ?st = Some ([] @ ingested_sheet ''North'' # [ingested_sheet ''South''])" by simp
  have h3: "insights_loop ?E [] [] ?w = (Inr [], ?w)" by simp
  have c: "chat ?E m w = Inl (ExceptionE ''APIError'')" for m w by simp
  from insight_stage_one_call_and_fatal_error [OF h1 h2 h3]
  have "workflow_invoke ?E ?init uploaded_world =
          (Inl (ExceptionE ''APIError''),
           ?w\<lparr>trace := trace ?w @ map (\<lambda>s. ChatCall (insight_messages ?E s))
                                      ([] @ [ingested_sheet ''North''])\<rparr>)"
    by (simp only: c sum.case)
  with h0 show ?thesis by blast
qed

text \<open>
  C9 as stated fails on an empty response: the empty text is stored as the insights, the
  stage returns normally, and the run goes on to produce the report.
\<close>

theorem empty_insight_accepted_counterexample:
  "fst (generate_insights
          (sample_env\<lparr>chat := \<lambda>m w. if map snd (take 1 m) = [''insights, please'']
                                     then Inr [] else sample_chat m w\<rparr>)
          \<lparr>filepath = ''f.csv'', sheets = Some [sample_sheet\<lparr>insights := None\<rparr>]\<rparr> empty_world)
     = Inr \<lparr>filepath = ''f.csv'', sheets = Some [sample_sheet\<lparr>insights := Some []\<rparr>]\<rparr>
   \<and> fst (upload_file
          (sample_env\<lparr>chat := \<lambda>m w. if map snd (take 1 m) = [''insights, please'']
                                     then Inr [] else sample_chat m w\<rparr>)
          ''data.csv'' ''a,1,2'' empty_world)
     = Inr (JSONResponse 200 (Success [''Sheet1.pdf'']))"
  by code_simp

section \<open>A report that cannot be written\<close>

text \<open>
  C3, as the code has it. Let the stages before the renderer have completed for an
  upload, let the renderer have gone through the sheets \<open>pre\<close>, and let the next sheet have
  its charts run and its pages drawn. If its report path cannot be written, the error is
  not caught at the sheet boundary: it leaves the renderer with the world as that sheet's
  chart loop left it, so no sheet after it is processed, and the upload endpoint answers
  with the single failure carrying that error, without a list of reports.
\<close>

theorem report_write_error_fails_the_run:
  assumes ext: "endswith filename ''.csv'' \<or> endswith filename ''.xlsx'' \<or> endswith filename ''.xls''"
      and up: "can_write E (path_join (UPLOAD_DIR E) filename)"
      and before: "stages_before_render E \<lparr>filepath = path_join (UPLOAD_DIR E) filename, sheets = None\<rparr>
                     (w0\<lparr>files := (files w0)(path_join (UPLOAD_DIR E) filename \<mapsto> Bytes content)\<rparr>)
                   = (Inr st, w)"
      and ss: "sheets st = Some (pre @ s # post)"
      and pre: "make_plots_loop E pre [] w = (Inr acc, w1)"
      and v: "visuals s = Some (PDict charts)"
      and cl: "chart_loop E (sheet_name s) charts (df s) [] w1 = (Inr (d', imgs), w2)"
      and dp: "draw_pages imgs = Inr pages"
      and cw: "\<not> can_write E (path_join (REPORT_DIR E) (sheet_name s @ ''.pdf''))"
  shows "make_plots E st w = (Inl (ExceptionE ''OSError''), w2)
       \<and> upload_file E filename content w0 =
           (Inr (JSONResponse 500 (WorkflowFailed (ExceptionE ''OSError''))), w2)"
proof -
  have r: "render_sheet E s w1 = (Inl (ExceptionE ''OSError''), w2)"
    using v cl dp cw by (simp add: render_sheet_def Let_def)
  have "make_plots_loop E (pre @ s # post) [] w = (Inl (ExceptionE ''OSError''), w2)"
    using pre r by (simp add: make_plots_loop_append)
  then have m: "make_plots E st w = (Inl (ExceptionE ''OSError''), w2)"
    using ss by (simp add: make_plots_def)
  have "workflow_invoke E \<lparr>filepath = path_join (UPLOAD_DIR E) filename, sheets = None\<rparr>
          (w0\<lparr>files := (files w0)(path_join (UPLOAD_DIR E) filename \<mapsto> Bytes content)\<rparr>)
        = (Inl (ExceptionE ''OSError''), w2)"
    using before m by (simp add: workflow_invoke_def stages_before_render_def and_then_def)
  then have "upload_file E filename content w0 =
           (Inr (JSONResponse 500 (WorkflowFailed (ExceptionE ''OSError''))), w2)"
    using ext up by (simp add: upload_file_def Let_def)
  with m show ?thesis by simp
qed

theorem report_write_error_fails_the_run_witness:
  "(endswith ''data.xlsx'' ''.csv'' \<or> endswith ''data.xlsx'' ''.xlsx'' \<or> endswith ''data.xlsx'' ''.xls'')
   \<and> \<not> can_write (sample_env\<lparr>can_write := \<lambda>p. p \<noteq> ''/app/generated_reports/North.pdf''\<rparr>)
          (path_join (REPORT_DIR (sample_env\<lparr>can_write := \<lambda>p. p \<noteq> ''/app/generated_reports/North.pdf''\<rparr>))
             (''North'' @ ''.pdf''))
   \<and> (\<exists>w2. upload_file (sample_env\<lparr>can_write := \<lambda>p. p \<noteq> ''/app/generated_reports/North.pdf''\<rparr>)
               ''data.xlsx'' ''a,1,2'' empty_world
             = (Inr (JSONResponse 500 (WorkflowFailed (ExceptionE ''OSError''))), w2))"
proof -
  let ?E = "sample_env\<lparr>can_write := \<lambda>p. p \<noteq> ''/app/generated_reports/North.pdf''\<rparr>"
  let ?init = "\<lparr>filepath = path_join (UPLOAD_DIR ?E) ''data.xlsx'', sheets = None\<rparr>"
  let ?w0 = "empty_world\<lparr>files := (files empty_world)(path_join (UPLOAD_DIR ?E) ''data.xlsx'' \<mapsto> Bytes ''a,1,2'')\<rparr>"
  let ?b = "stages_before_render ?E ?init ?w0"
  let ?vis = "Some (PDict [(PStr ''chart1'', plotting_spec ''trend of a'')])"
  let ?north = "(ingested_sheet ''North'')\<lparr>insights := Some ''a grows'', visuals := ?vis\<rparr>"
  let ?south = "(ingested_sheet ''South'')\<lparr>insights := Some ''a grows'', visuals := ?vis\<rparr>"
  let ?st = "\<lparr>filepath = ''/app/uploads/data.xlsx'', sheets = Some ([] @ ?north # [?south])\<rparr>"
  let ?cl = "chart_loop ?E (sheet_name ?north) [(PStr ''chart1'', plotting_spec ''trend of a'')]
               (df ?north) [] (snd ?b)"
  have ext: "endswith ''data.xlsx'' ''.csv'' \<or> endswith ''data.xlsx'' ''.xlsx'' \<or> endswith ''data.xlsx'' ''.xls''"
    by code_simp
  have up: "can_write ?E (path_join (UPLOAD_DIR ?E) ''data.xlsx'')" by code_simp
  have "fst ?b = Inr ?st" by code_simp
  then have before: "?b = (Inr ?st, snd ?b)" by (simp add: prod_eq_iff)
  have ss: "sheets ?st = Some ([] @ ?north # [?south])" by simp
  have pre: "make_plots_loop ?E [] [] (snd ?b) = (Inr [], snd ?b)" by simp
  have v: "visuals ?north = ?vis" by simp
  have "fst ?cl = Inr (sample_df, [(''png of line of a'', PStr ''trend of a'')])" by code_simp
  then have cl: "?cl = (Inr (sample_df, [(''png of line of a'', PStr ''trend of a'')]), snd ?cl)"
    by (simp add: prod_eq_iff)
  have dp: "draw_pages [(''png of line of a'', PStr ''trend of a'')] = Inr [(''png of line of a'', ''trend of a'')]"
    by simp
  have n: "sheet_name ?north = ''North''" by (simp add: ingested_sheet_def)
  have cw: "\<not> can_write ?E (path_join (REPORT_DIR ?E) (''North'' @ ''.pdf''))" by code_simp
  have cw': "\<not> can_write ?E (path_join (REPORT_DIR ?E) (sheet_name ?north @ ''.pdf''))"
    by code_simp
  from report_write_error_fails_the_run [OF ext up before ss pre v cl dp cw']
  have "upload_file ?E ''data.xlsx'' ''a,1,2'' empty_world
          = (Inr (JSONResponse 500 (WorkflowFailed (ExceptionE ''OSError''))), snd ?cl)"
    by simp
  then have "\<exists>w2. upload_file ?E ''data.xlsx'' ''a,1,2'' empty_world
          = (Inr (JSONResponse 500 (WorkflowFailed (ExceptionE ''OSError''))), w2)"
    by blast
  with ext cw show ?thesis by blast
qed

text \<open>
  C3 as stated fails: with two sheets, when the report of the first cannot be written, the
  run ends in the failure response; the second sheet, whose path is writable, is never
  rendered and has no report.
\<close>

theorem write_error_not_contained_counterexample:
  "can_write (sample_env\<lparr>can_write := \<lambda>p. p \<noteq> ''/app/generated_reports/North.pdf''\<rparr>)
     ''/app/generated_reports/South.pdf''
   \<and> fst (upload_file (sample_env\<lparr>can_write := \<lambda>p. p \<noteq> ''/app/generated_reports/North.pdf''\<rparr>)
            ''data.xlsx'' ''a,1,2'' empty_world)
       = Inr (JSONResponse 500 (WorkflowFailed (ExceptionE ''OSError'')))
   \<and> files (snd (upload_file (sample_env\<lparr>can_write := \<lambda>p. p \<noteq> ''/app/generated_reports/North.pdf''\<rparr>)
                   ''data.xlsx'' ''a,1,2'' empty_world)) ''/app/generated_reports/South.pdf'' = None
   \<and> length (exec_codes (trace (snd (upload_file
                   (sample_env\<lparr>can_write := \<lambda>p. p \<noteq> ''/app/generated_reports/North.pdf''\<rparr>)
                   ''data.xlsx'' ''a,1,2'' empty_world)))) = 1"
  by code_simp

end
